theory Spec2Isabelle
  imports Main "HOL-Library.Word"
begin

section \<open>The SSH tunnel connection resource\<close>

text \<open>
  A shallow embedding of \<^verbatim>\<open>internal/provider/connection_ephemeral_resource.go\<close>:
  the ephemeral resource that opens an SSH connection, starts one local listener per
  configured forwarding, tracks both in the provider's tunnel tracker under a random
  identifier, and tears them down again on \<^verbatim>\<open>Close\<close>.

  Everything the Go code obtains from outside the file (the random source, the JSON
  codec, the SSH library, the port-forwarding package, the close calls of the handles
  and the framework's result encoder) is a field of the environment record \<open>Env\<close>;
  everything the code mutates (the tracker, the \<^verbatim>\<open>TunnelInfo\<close> objects it points to, the
  calls made to the outside) is a field of the state record \<open>World\<close>.
\<close>

subsection \<open>Framework values and diagnostics\<close>

text \<open>
  \<^verbatim>\<open>basetypes.StringValue\<close> and \<^verbatim>\<open>basetypes.Int32Value\<close> are null, unknown or known.
  \<^verbatim>\<open>ValueString\<close> and \<^verbatim>\<open>ValueInt32\<close> give the zero value unless the value is known;
  \<^verbatim>\<open>ValueInt32Pointer\<close> gives \<^verbatim>\<open>nil\<close> for null.
\<close>

datatype 'a tfvalue = Null | Unknown | Known 'a

type_synonym int32 = "32 word"

type_synonym Duration = "64 word"

definition IsNull :: "'a tfvalue \<Rightarrow> bool" where
  "IsNull v = (case v of Null \<Rightarrow> True | Unknown \<Rightarrow> False | Known x \<Rightarrow> False)"

definition ValueString :: "string tfvalue \<Rightarrow> string" where
  "ValueString v = (case v of Null \<Rightarrow> [] | Unknown \<Rightarrow> [] | Known s \<Rightarrow> s)"

definition ValueInt32 :: "int32 tfvalue \<Rightarrow> int32" where
  "ValueInt32 v = (case v of Null \<Rightarrow> 0 | Unknown \<Rightarrow> 0 | Known i \<Rightarrow> i)"

definition ValueInt32Pointer :: "int32 tfvalue \<Rightarrow> int32 option" where
  "ValueInt32Pointer v = (if IsNull v then None else Some (ValueInt32 v))"

definition NewInt32Value :: "int32 \<Rightarrow> int32 tfvalue" where
  "NewInt32Value i = Known i"

text \<open>
  \<^verbatim>\<open>diag.Diagnostics\<close> is an ordered list of errors and warnings, each with a summary
  and a detail. \<^verbatim>\<open>Append\<close> skips a diagnostic that the list already contains, and
  \<^verbatim>\<open>AddError\<close> appends a new error diagnostic through \<^verbatim>\<open>Append\<close>.
\<close>

datatype Diagnostic = ErrorDiagnostic string string | WarningDiagnostic string string

type_synonym Diagnostics = "Diagnostic list"

fun is_error :: "Diagnostic \<Rightarrow> bool" where
  "is_error (ErrorDiagnostic summary detail) = True"
| "is_error (WarningDiagnostic summary detail) = False"

definition HasError :: "Diagnostics \<Rightarrow> bool" where
  "HasError diags = list_ex is_error diags"

fun Append :: "Diagnostics \<Rightarrow> Diagnostics \<Rightarrow> Diagnostics" where
  "Append diags [] = diags"
| "Append diags (d # ds) = Append (if d \<in> set diags then diags else diags @ [d]) ds"

definition AddError :: "Diagnostics \<Rightarrow> string \<Rightarrow> string \<Rightarrow> Diagnostics" where
  "AddError diags summary detail = Append diags [ErrorDiagnostic summary detail]"

subsection \<open>The resource's data model\<close>

record ConnectionEphemeralResourceModelLocalPortForwarding =
  LocalPort :: "int32 tfvalue"
  RemoteHost :: "string tfvalue"
  RemotePort :: "int32 tfvalue"
  RetryAttempts :: "int32 tfvalue"
  RetryDelay :: "string tfvalue"

record ConnectionEphemeralResourceModelAuth =
  PrivateKey :: "string tfvalue"

record ConnectionEphemeralResourceModel =
  Host :: "string tfvalue"
  Port :: "int32 tfvalue"
  User :: "string tfvalue"
  Auth :: ConnectionEphemeralResourceModelAuth
  LocalPortForwardings :: "ConnectionEphemeralResourceModelLocalPortForwarding list"

definition connectionPrivateDataKey :: string where
  "connectionPrivateDataKey = ''connection''"

record ConnectionPrivateData =
  ID :: string

subsection \<open>Handles, tunnel records and the tracker\<close>

text \<open>
  An SSH client and a listener are handles (natural numbers, handed out in order, so
  that two successful calls never return the same one). A listener also carries the
  address it is bound to: \<^verbatim>\<open>listener.Addr()\<close> is a \<^verbatim>\<open>*net.TCPAddr\<close> with an \<^verbatim>\<open>int\<close> port,
  or an address of another kind.

  \<^verbatim>\<open>portforward.Config\<close> is declared in another package; its four fields are the ones
  \<^verbatim>\<open>Open\<close> assigns, with Go's zero values where \<^verbatim>\<open>Open\<close> assigns nothing.
\<close>

datatype Addr = TCPAddr int | OtherAddr

record Listener =
  lis_handle :: nat
  lis_addr :: Addr

record Config =
  cfg_LocalPort :: "int32 option"
  cfg_RemoteAddr :: string
  cfg_RetryDelay :: Duration
  cfg_RetryAttempts :: int32

text \<open>
  \<^verbatim>\<open>TunnelInfo\<close> is declared next to the tracker, outside this file; \<^verbatim>\<open>Open\<close> and
  \<^verbatim>\<open>closeByConnectionID\<close> use its fields \<^verbatim>\<open>conn\<close> (nil until the dial succeeds) and
  \<^verbatim>\<open>listeners\<close>.
\<close>

record TunnelInfo =
  conn :: "nat option"
  listeners :: "Listener list"

text \<open>
  The calls that change the tracker or reach the outside, in the order they happen. A
  dial and a listener construction are recorded with their outcome: the error text, or
  the handle (the listener) obtained.
\<close>

datatype Event =
    EvAdd string nat
  | EvRemove string
  | EvDial string string "string + nat"
  | EvNew nat Config "string + Listener"
  | EvListenerClose nat
  | EvConnClose nat

text \<open>
  The state: the tracker maps an identifier to a pointer, the heap holds the
  \<^verbatim>\<open>TunnelInfo\<close> each pointer refers to (the tracker stores \<^verbatim>\<open>*TunnelInfo\<close>, and \<^verbatim>\<open>Open\<close>
  keeps writing through the pointer after it has registered it), two allocation
  counters, the position in the random source, and the trace of events. The resource
  is taken as configured: \<^verbatim>\<open>r.tunnelTracker\<close> is the tracker of the state.
\<close>

record World =
  tracker :: "string \<rightharpoonup> nat"
  heap :: "nat \<Rightarrow> TunnelInfo"
  next_addr :: nat
  next_handle :: nat
  rand_pos :: nat
  trace :: "Event list"

definition World0 :: World where
  "World0 = \<lparr>tracker = Map.empty, heap = (\<lambda>a. \<lparr>conn = None, listeners = []\<rparr>),
             next_addr = 0, next_handle = 0, rand_pos = 0, trace = []\<rparr>"

text \<open>
  The outside world. Every outcome the Go code branches on is a value here:
  \<^item> \<open>rand_Int k\<close>: the \<open>k\<close>-th number drawn from \<^verbatim>\<open>math/rand\<close>, before reduction;
  \<^item> \<open>json_Marshal\<close>, \<open>json_Unmarshal\<close>: the codec of \<^verbatim>\<open>ConnectionPrivateData\<close>;
  \<^item> \<open>ssh_ParsePrivateKey\<close>: an error text or a signer;
  \<^item> \<open>ssh_Dial h addr user signer\<close>: an error text, or \<open>None\<close> when the client with
    handle \<open>h\<close> is connected;
  \<^item> \<open>time_ParseDuration\<close>: an error text or a duration;
  \<^item> \<open>portforward_New h c conf\<close>: an error text, or the address the new listener with
    handle \<open>h\<close> is bound to;
  \<^item> \<open>listener_Close\<close>, \<open>conn_Close\<close>: the error of closing a handle, if any;
  \<^item> \<open>Result_Set\<close>: the diagnostics of \<^verbatim>\<open>resp.Result.Set\<close>.
\<close>

record Env =
  rand_Int :: "nat \<Rightarrow> nat"
  json_Marshal :: "ConnectionPrivateData \<Rightarrow> string + string"
  json_Unmarshal :: "string \<Rightarrow> string + ConnectionPrivateData"
  ssh_ParsePrivateKey :: "string \<Rightarrow> string + nat"
  ssh_Dial :: "nat \<Rightarrow> string \<Rightarrow> string \<Rightarrow> nat \<Rightarrow> string option"
  time_ParseDuration :: "string \<Rightarrow> string + Duration"
  portforward_New :: "nat \<Rightarrow> nat \<Rightarrow> Config \<Rightarrow> string + Addr"
  listener_Close :: "nat \<Rightarrow> string option"
  conn_Close :: "nat \<Rightarrow> string option"
  Result_Set :: "ConnectionEphemeralResourceModel \<Rightarrow> Diagnostics"

text \<open>
  Modelled from the spec: the methods \<^verbatim>\<open>Add\<close>, \<^verbatim>\<open>Get\<close> and \<^verbatim>\<open>Remove\<close> of
  \<^verbatim>\<open>TunnelTracker\<close> are declared outside this file. \<^verbatim>\<open>Add\<close> inserts unconditionally (the
  last write wins), \<^verbatim>\<open>Get\<close> returns the record or nil without removing it, \<^verbatim>\<open>Remove\<close>
  deletes the entry if present and is a no-op otherwise.
\<close>

definition tracker_Add :: "string \<Rightarrow> nat \<Rightarrow> World \<Rightarrow> World" where
  "tracker_Add id' a w = w\<lparr>tracker := (tracker w)(id' \<mapsto> a), trace := trace w @ [EvAdd id' a]\<rparr>"

definition tracker_Get :: "string \<Rightarrow> World \<Rightarrow> nat option" where
  "tracker_Get id' w = tracker w id'"

definition tracker_Remove :: "string \<Rightarrow> World \<Rightarrow> World" where
  "tracker_Remove id' w = w\<lparr>tracker := (tracker w)(id' := None), trace := trace w @ [EvRemove id']\<rparr>"

subsection \<open>\<^verbatim>\<open>randSeq\<close> and \<^verbatim>\<open>hostAddr\<close>\<close>

definition letters :: string where
  "letters = ''abcdefghijklmnopqrstuvwxyzABCDEFGHIJKLMNOPQRSTUVWXYZ''"

text \<open>\<^verbatim>\<open>rand.Intn(n)\<close> for \<open>0 < n\<close>: the next draw, reduced to \<open>[0, n)\<close>.\<close>

definition rand_Intn :: "Env \<Rightarrow> nat \<Rightarrow> World \<Rightarrow> nat \<times> World" where
  "rand_Intn env n w = (rand_Int env (rand_pos w) mod n, w\<lparr>rand_pos := Suc (rand_pos w)\<rparr>)"

text \<open>The loop \<^verbatim>\<open>for i := range b { b[i] = letters[rand.Intn(len(letters))] }\<close>.\<close>

function randSeq_loop :: "Env \<Rightarrow> nat \<Rightarrow> string \<Rightarrow> World \<Rightarrow> string \<times> World" where
  "randSeq_loop env i b w =
     (if i < length b
      then (case rand_Intn env (length letters) w of
              (k, w') \<Rightarrow> randSeq_loop env (Suc i) (b[i := letters ! k]) w')
      else (b, w))"
  by pat_completeness auto
termination
  by (relation "measure (\<lambda>(env, i, b, w). length b - i)") auto

declare randSeq_loop.simps [simp del]

definition randSeq :: "Env \<Rightarrow> nat \<Rightarrow> World \<Rightarrow> string \<times> World" where
  "randSeq env n w = randSeq_loop env 0 (replicate n (CHR 0x00)) w"

text \<open>The verb \<^verbatim>\<open>%d\<close> of \<^verbatim>\<open>fmt.Sprintf\<close>: a minus sign if negative, then the decimal digits.\<close>

definition digit_char :: "nat \<Rightarrow> char" where
  "digit_char d = ''0123456789'' ! d"

fun dec_nat :: "nat \<Rightarrow> string" where
  "dec_nat n = (if n < 10 then [digit_char n] else dec_nat (n div 10) @ [digit_char (n mod 10)])"

declare dec_nat.simps [simp del]

definition fmt_d :: "int \<Rightarrow> string" where
  "fmt_d i = (if i < 0 then CHR ''-'' # dec_nat (nat (- i)) else dec_nat (nat i))"

definition hostAddr :: "string tfvalue \<Rightarrow> int32 tfvalue \<Rightarrow> string" where
  "hostAddr host port = ValueString host @ '':'' @ fmt_d (sint (ValueInt32 port))"

subsection \<open>\<^verbatim>\<open>closeByConnectionID\<close> and \<^verbatim>\<open>Close\<close>\<close>

text \<open>The loop over \<^verbatim>\<open>tunnelInfo.listeners\<close>: close each one, keep every error.\<close>

fun close_listeners :: "Env \<Rightarrow> Listener list \<Rightarrow> Diagnostics \<Rightarrow> World \<Rightarrow> Diagnostics \<times> World" where
  "close_listeners env [] diags w = (diags, w)"
| "close_listeners env (listener # rest) diags w =
     (let w1 = w\<lparr>trace := trace w @ [EvListenerClose (lis_handle listener)]\<rparr>;
          diags1 = (case listener_Close env (lis_handle listener) of
                      None \<Rightarrow> diags
                    | Some err \<Rightarrow> AddError diags ''Failed to close listener''
                                   (''Failed to close listener: '' @ err))
      in close_listeners env rest diags1 w1)"

text \<open>The guarded \<^verbatim>\<open>tunnelInfo.conn.Close()\<close>.\<close>

definition close_conn :: "Env \<Rightarrow> nat option \<Rightarrow> Diagnostics \<Rightarrow> World \<Rightarrow> Diagnostics \<times> World" where
  "close_conn env c diags w =
     (case c of
        None \<Rightarrow> (diags, w)
      | Some h \<Rightarrow>
          (case conn_Close env h of
             None \<Rightarrow> diags
           | Some err \<Rightarrow> AddError diags ''Failed to close connection''
                          (''Failed to close connection: '' @ err),
           w\<lparr>trace := trace w @ [EvConnClose h]\<rparr>))"

definition closeByConnectionID :: "Env \<Rightarrow> string \<Rightarrow> World \<Rightarrow> Diagnostics \<times> World" where
  "closeByConnectionID env id' w =
     (let diags = [] in
      case tracker_Get id' w of
        None \<Rightarrow> (diags, w)
      | Some tunnelInfo \<Rightarrow>
          (case close_listeners env (listeners (heap w tunnelInfo)) diags w of
             (diags1, w1) \<Rightarrow>
               (case close_conn env (conn (heap w1 tunnelInfo)) diags1 w1 of
                  (diags2, w2) \<Rightarrow> (diags2, tracker_Remove id' w2))))"

text \<open>
  \<^verbatim>\<open>Close\<close> reads the identifier back from the private data of the request:
  \<open>Private_GetKey\<close> is the result of \<^verbatim>\<open>req.Private.GetKey\<close> for a key.
\<close>

record CloseRequest =
  Private_GetKey :: "string \<Rightarrow> string \<times> Diagnostics"

definition Close :: "Env \<Rightarrow> CloseRequest \<Rightarrow> World \<Rightarrow> Diagnostics \<times> World" where
  "Close env req w =
     (case Private_GetKey req connectionPrivateDataKey of
        (b, diags) \<Rightarrow>
          if HasError diags then (Append [] diags, w)
          else (case json_Unmarshal env b of
                  Inl err \<Rightarrow> (AddError [] ''Private Data Error''
                               (''Unable to unmarshal private data, got error: '' @ err), w)
                | Inr privateData \<Rightarrow>
                    (case closeByConnectionID env (ID privateData) w of
                       (cdiags, w') \<Rightarrow> (Append [] cdiags, w'))))"

subsection \<open>\<^verbatim>\<open>Open\<close>\<close>

record OpenRequest =
  Config_Get :: "Diagnostics \<times> ConnectionEphemeralResourceModel"

record OpenResponse =
  resp_Diagnostics :: Diagnostics
  resp_Private :: "string \<rightharpoonup> string"
  resp_Result :: "ConnectionEphemeralResourceModel option"

text \<open>\<^verbatim>\<open>tunnelInfo := &TunnelInfo{}\<close>: a fresh object with nil \<^verbatim>\<open>conn\<close> and no listeners.\<close>

definition new_TunnelInfo :: "World \<Rightarrow> nat \<times> World" where
  "new_TunnelInfo w =
     (next_addr w,
      w\<lparr>heap := (heap w)(next_addr w := \<lparr>conn = None, listeners = []\<rparr>),
        next_addr := Suc (next_addr w)\<rparr>)"

text \<open>
  The configuration of one forwarding (lines 215 to 231): the remote address, then the
  retry delay if one is given (its parse error ends \<^verbatim>\<open>Open\<close>), then the retry attempts.
\<close>

definition forwarding_conf ::
  "Env \<Rightarrow> ConnectionEphemeralResourceModelLocalPortForwarding \<Rightarrow> string + Config" where
  "forwarding_conf env localPortForwarding =
     (let conf = \<lparr>cfg_LocalPort = ValueInt32Pointer (LocalPort localPortForwarding),
                  cfg_RemoteAddr = hostAddr (RemoteHost localPortForwarding)
                                            (RemotePort localPortForwarding),
                  cfg_RetryDelay = 0, cfg_RetryAttempts = 0\<rparr>;
          with_delay =
            (if \<not> IsNull (RetryDelay localPortForwarding)
             then (case time_ParseDuration env (ValueString (RetryDelay localPortForwarding)) of
                     Inl err \<Rightarrow> Inl err
                   | Inr retryDelay \<Rightarrow> Inr (conf\<lparr>cfg_RetryDelay := retryDelay\<rparr>))
             else Inr conf)
      in case with_delay of
           Inl err \<Rightarrow> Inl err
         | Inr conf1 \<Rightarrow>
             Inr (if \<not> IsNull (RetryAttempts localPortForwarding)
                  then conf1\<lparr>cfg_RetryAttempts := ValueInt32 (RetryAttempts localPortForwarding)\<rparr>
                  else conf1))"

text \<open>
  The loop over \<^verbatim>\<open>data.LocalPortForwardings\<close>. It returns whether the loop ran to its
  end or \<^verbatim>\<open>Open\<close> returned from inside it, the forwardings with the local port of each
  processed one overwritten (\<^verbatim>\<open>data.LocalPortForwardings[i].LocalPort = ...\<close>), the
  diagnostics and the state. \<^verbatim>\<open>int32(tcpAddr.Port)\<close> keeps the low 32 bits.
\<close>

datatype LoopExit = Completed | Returned

fun forward_loop ::
  "Env \<Rightarrow> string \<Rightarrow> nat \<Rightarrow> nat \<Rightarrow> ConnectionEphemeralResourceModelLocalPortForwarding list \<Rightarrow>
   Diagnostics \<Rightarrow> World \<Rightarrow>
   LoopExit \<times> ConnectionEphemeralResourceModelLocalPortForwarding list \<times> Diagnostics \<times> World" where
  "forward_loop env id' tunnelInfo c [] diags w = (Completed, [], diags, w)"
| "forward_loop env id' tunnelInfo c (localPortForwarding # rest) diags w =
     (case forwarding_conf env localPortForwarding of
        Inl err \<Rightarrow>
          (Returned, localPortForwarding # rest,
           AddError diags ''Local Port Forwarding Error'' (''Invalid retry delay: '' @ err), w)
      | Inr conf \<Rightarrow>
          (case portforward_New env (next_handle w) c conf of
             Inl err \<Rightarrow>
               (let w1 = w\<lparr>trace := trace w @ [EvNew c conf (Inl err)]\<rparr>;
                    diags1 = AddError diags ''Port Forwarding Error''
                               (''Unable to create port forwarding, got error: '' @ err)
                in case closeByConnectionID env id' w1 of
                     (cdiags, w2) \<Rightarrow>
                       (Returned, localPortForwarding # rest, Append diags1 cdiags, w2))
           | Inr addr \<Rightarrow>
               (let listener = \<lparr>lis_handle = next_handle w, lis_addr = addr\<rparr>;
                    info = heap w tunnelInfo;
                    w2 = w\<lparr>trace := trace w @ [EvNew c conf (Inr listener)],
                           next_handle := Suc (next_handle w),
                           heap := (heap w)(tunnelInfo :=
                                     info\<lparr>listeners := listeners info @ [listener]\<rparr>)\<rparr>
                in case lis_addr listener of
                     OtherAddr \<Rightarrow>
                       (let diags1 = AddError diags ''Port Forwarding Error''
                                       ''Listener address is not a TCP address''
                        in case closeByConnectionID env id' w2 of
                             (cdiags, w3) \<Rightarrow>
                               (Returned, localPortForwarding # rest, Append diags1 cdiags, w3))
                   | TCPAddr port \<Rightarrow>
                       (case forward_loop env id' tunnelInfo c rest diags w2 of
                          (exit, rest', diags', w') \<Rightarrow>
                            (exit,
                             localPortForwarding\<lparr>LocalPort := NewInt32Value (word_of_int port)\<rparr>
                               # rest',
                             diags', w')))))"

text \<open>
  Lines 190 to 256: parse the key, dial, store the client in the registered record, run
  the loop, and set the result.
\<close>

definition Open_connect ::
  "Env \<Rightarrow> ConnectionEphemeralResourceModel \<Rightarrow> string \<Rightarrow> nat \<Rightarrow> OpenResponse \<Rightarrow> World \<Rightarrow>
   OpenResponse \<times> World" where
  "Open_connect env data id' tunnelInfo resp w =
     (case ssh_ParsePrivateKey env (ValueString (PrivateKey (Auth data))) of
        Inl err \<Rightarrow>
          (resp\<lparr>resp_Diagnostics := AddError (resp_Diagnostics resp) ''Private Key Error''
                   (''Unable to parse private key, got error: '' @ err)\<rparr>, w)
      | Inr signer \<Rightarrow>
          (let addr = hostAddr (Host data) (Port data);
               user = ValueString (User data)
           in case ssh_Dial env (next_handle w) addr user signer of
                Some err \<Rightarrow>
                  (resp\<lparr>resp_Diagnostics := AddError (resp_Diagnostics resp) ''Connection Error''
                           (''Unable to connect to host '' @ ValueString (Host data)
                              @ '', got error: '' @ err)\<rparr>,
                   w\<lparr>trace := trace w @ [EvDial addr user (Inl err)]\<rparr>)
              | None \<Rightarrow>
                  (let c = next_handle w;
                       w2 = w\<lparr>trace := trace w @ [EvDial addr user (Inr c)],
                              next_handle := Suc (next_handle w),
                              heap := (heap w)(tunnelInfo := (heap w tunnelInfo)\<lparr>conn := Some c\<rparr>)\<rparr>
                   in case forward_loop env id' tunnelInfo c (LocalPortForwardings data)
                             (resp_Diagnostics resp) w2 of
                        (Returned, fwds, diags, w3) \<Rightarrow> (resp\<lparr>resp_Diagnostics := diags\<rparr>, w3)
                      | (Completed, fwds, diags, w3) \<Rightarrow>
                          (let data' = data\<lparr>LocalPortForwardings := fwds\<rparr>;
                               rdiags = Result_Set env data'
                           in (resp\<lparr>resp_Diagnostics := Append diags rdiags,
                                    resp_Result := (if HasError rdiags then None else Some data')\<rparr>,
                               w3)))))"

text \<open>Lines 170 to 188: read the configuration, draw the identifier, register the record.\<close>

definition Open :: "Env \<Rightarrow> OpenRequest \<Rightarrow> World \<Rightarrow> OpenResponse \<times> World" where
  "Open env req w =
     (let resp = \<lparr>resp_Diagnostics = Append [] (fst (Config_Get req)),
                  resp_Private = Map.empty, resp_Result = None\<rparr>;
          data = snd (Config_Get req)
      in if HasError (resp_Diagnostics resp) then (resp, w)
         else
           (case randSeq env 8 w of
              (id', w1) \<Rightarrow>
                (case new_TunnelInfo w1 of
                   (tunnelInfo, w2) \<Rightarrow>
                     (case json_Marshal env \<lparr>ID = id'\<rparr> of
                        Inl err \<Rightarrow>
                          (resp\<lparr>resp_Diagnostics := AddError (resp_Diagnostics resp)
                                   ''Private Data Error''
                                   (''Unable to marshal private data, got error: '' @ err)\<rparr>, w2)
                      | Inr b \<Rightarrow>
                          Open_connect env data id' tunnelInfo
                            (resp\<lparr>resp_Private := (resp_Private resp)(connectionPrivateDataKey \<mapsto> b)\<rparr>)
                            (tracker_Add id' tunnelInfo w2)))))"

subsection \<open>States between calls\<close>

text \<open>
  The states the provider can be in between two calls: the empty tracker, and whatever
  \<^verbatim>\<open>Open\<close> and \<^verbatim>\<open>Close\<close> make of such a state, for any request and any behaviour of the
  outside world.
\<close>

inductive reachable :: "World \<Rightarrow> bool" where
  reachable_init: "reachable World0"
| reachable_Open: "reachable w \<Longrightarrow> reachable (snd (Open env req w))"
| reachable_Close: "reachable w \<Longrightarrow> reachable (snd (Close env creq w))"

text \<open>The events a call added to the trace, and the listeners constructed among them.\<close>

definition new_events :: "World \<Rightarrow> World \<Rightarrow> Event list" where
  "new_events w w' = drop (length (trace w)) (trace w')"

fun created_listeners :: "Event list \<Rightarrow> Listener list" where
  "created_listeners [] = []"
| "created_listeners (EvNew c conf (Inr listener) # evs) = listener # created_listeners evs"
| "created_listeners (ev # evs) = created_listeners evs"


subsection \<open>A sample environment\<close>

text \<open>
  An outside world for the examples: the key parses unless it is empty, the host
  \<^verbatim>\<open>unreachable\<close> refuses the connection, only \<^verbatim>\<open>100ms\<close> is a duration, local port 80
  cannot be bound and local port 7 yields a listener without a TCP address, an
  unspecified local port is assigned from 40000 upwards, and closing never fails.
\<close>

definition env_ok :: Env where
  "env_ok =
     \<lparr>rand_Int = (\<lambda>k. 7 * k + 3),
      json_Marshal = (\<lambda>privateData. Inr (ID privateData)),
      json_Unmarshal = (\<lambda>b. Inr \<lparr>ID = b\<rparr>),
      ssh_ParsePrivateKey = (\<lambda>key. if key = [] then Inl ''ssh: no key found'' else Inr 0),
      ssh_Dial = (\<lambda>h addr user signer.
                   if addr = ''unreachable:22'' then Some ''dial tcp: i/o timeout'' else None),
      time_ParseDuration = (\<lambda>s. if s = ''100ms'' then Inr 100000000
                                 else Inl ''time: invalid duration''),
      portforward_New = (\<lambda>h c conf.
                          case cfg_LocalPort conf of
                            None \<Rightarrow> Inr (TCPAddr (40000 + int h))
                          | Some p \<Rightarrow>
                              if p = 80 then Inl ''listen tcp :80: bind: permission denied''
                              else if p = 7 then Inr OtherAddr
                              else Inr (TCPAddr (sint p))),
      listener_Close = (\<lambda>h. None),
      conn_Close = (\<lambda>h. None),
      Result_Set = (\<lambda>data. [])\<rparr>"

text \<open>The same world where closing any handle fails.\<close>

definition env_close_fails :: Env where
  "env_close_fails =
     env_ok\<lparr>listener_Close := (\<lambda>h. Some ''use of closed network connection''),
            conn_Close := (\<lambda>h. Some ''EOF'')\<rparr>"

definition forwarding :: "int32 tfvalue \<Rightarrow> string \<Rightarrow> int32 \<Rightarrow> string tfvalue \<Rightarrow>
    ConnectionEphemeralResourceModelLocalPortForwarding" where
  "forwarding lp rh rp rd =
     \<lparr>LocalPort = lp, RemoteHost = Known rh, RemotePort = Known rp,
      RetryAttempts = Known 2, RetryDelay = rd\<rparr>"

definition open_request :: "string \<Rightarrow> string \<Rightarrow>
    ConnectionEphemeralResourceModelLocalPortForwarding list \<Rightarrow> OpenRequest" where
  "open_request h key fwds =
     \<lparr>Config_Get = ([], \<lparr>Host = Known h, Port = Known 22, User = Known ''deploy'',
                           Auth = \<lparr>PrivateKey = Known key\<rparr>,
                           LocalPortForwardings = fwds\<rparr>)\<rparr>"

definition close_request :: "string \<Rightarrow> CloseRequest" where
  "close_request b = \<lparr>Private_GetKey = (\<lambda>key. (if key = ''connection'' then b else [], []))\<rparr>"

subsection \<open>Intermediate states of \<^verbatim>\<open>Open\<close>, invariants and sample requests\<close>

text \<open>
  The state of \<^verbatim>\<open>Open\<close> after \<^verbatim>\<open>randSeq(8)\<close> and \<^verbatim>\<open>&TunnelInfo{}\<close> (line 180), after
  \<^verbatim>\<open>r.tunnelTracker.Add\<close> (line 188), and after \<^verbatim>\<open>tunnelInfo.conn = conn\<close> (line 210),
  written out field by field. That the model of \<^verbatim>\<open>Open\<close> passes through exactly these
  states is lemma \<open>Open_cases\<close> below.
\<close>

definition allocated :: "World \<Rightarrow> World" where
  "allocated w =
     w\<lparr>rand_pos := rand_pos w + 8,
       heap := (heap w)(next_addr w := \<lparr>conn = None, listeners = []\<rparr>),
       next_addr := Suc (next_addr w)\<rparr>"

definition registered :: "Env \<Rightarrow> World \<Rightarrow> World" where
  "registered env w =
     (allocated w)\<lparr>tracker := (tracker w)(fst (randSeq env 8 w) \<mapsto> next_addr w),
                   trace := trace w @ [EvAdd (fst (randSeq env 8 w)) (next_addr w)]\<rparr>"

definition connected :: "Env \<Rightarrow> ConnectionEphemeralResourceModel \<Rightarrow> World \<Rightarrow> World" where
  "connected env data w =
     (registered env w)
       \<lparr>trace := trace w @ [EvAdd (fst (randSeq env 8 w)) (next_addr w),
                            EvDial (hostAddr (Host data) (Port data)) (ValueString (User data))
                              (Inr (next_handle w))],
        next_handle := Suc (next_handle w),
        heap := (heap w)(next_addr w := \<lparr>conn = Some (next_handle w), listeners = []\<rparr>)\<rparr>"


text \<open>
The number a string of decimal digits denotes.
\<close>

definition decimal_value :: "string \<Rightarrow> nat" where
  "decimal_value s = foldl (\<lambda>acc ch. 10 * acc + (of_char ch - 48)) 0 s"

text \<open>
  Requests for the examples, all to the sample environment: two forwardings that can
  be set up; a private key that does not parse; a host that refuses the connection; a
  second forwarding whose retry delay does not parse; a second forwarding whose local
  port cannot be bound.
\<close>

definition two_forwardings :: OpenRequest where
  "two_forwardings =
     open_request ''::1'' ''KEY''
       [forwarding Null ''2001:db8::7'' 5432 (Known ''100ms''), forwarding (Known 8080) ''web'' 80 Null]"

definition bad_key :: OpenRequest where
  "bad_key = open_request ''db.internal'' [] [forwarding Null ''::1'' 5432 (Known ''100ms'')]"

definition unreachable_host :: OpenRequest where
  "unreachable_host = open_request ''unreachable'' ''KEY'' [forwarding Null ''::1'' 5432 (Known ''100ms'')]"

definition bad_delay :: OpenRequest where
  "bad_delay =
     open_request ''db.internal'' ''KEY''
       [forwarding Null ''::1'' 5432 (Known ''100ms''), forwarding Null ''web'' 80 (Known ''soon'')]"

definition port_in_use :: OpenRequest where
  "port_in_use =
     open_request ''db.internal'' ''KEY''
       [forwarding Null ''::1'' 5432 (Known ''100ms''), forwarding (Known 80) ''web'' 80 Null]"

section \<open>Properties\<close>

subsection \<open>Diagnostics, the identifier and decimal numbers\<close>

lemma set_Append: "set (Append diags ds) = set diags \<union> set ds"
  by (induction ds arbitrary: diags) auto

lemma HasError_Append: "HasError (Append diags ds) = (HasError diags \<or> HasError ds)"
  by (auto simp: HasError_def list_ex_iff set_Append)

lemma set_AddError: "set (AddError diags summary detail) = insert (ErrorDiagnostic summary detail) (set diags)"
  by (auto simp: AddError_def set_Append)

lemma HasError_AddError: "HasError (AddError diags summary detail)"
  by (simp add: HasError_def list_ex_iff set_AddError)

lemma HasError_Nil: "\<not> HasError []"
  by (simp add: HasError_def)

lemma HasError_Append_Nil: "HasError (Append [] ds) = HasError ds"
  by (simp add: HasError_Append HasError_Nil)




lemma randSeq_loop_world:
  "snd (randSeq_loop env i b w) = w\<lparr>rand_pos := rand_pos w + (length b - i)\<rparr>"
proof (induction env i b w rule: randSeq_loop.induct)
  case (1 env i b w)
  show ?case
  proof (cases "i < length b")
    case True
    then show ?thesis
      using "1.IH" [OF True, of "rand_Int env (rand_pos w) mod length letters"
                      "w\<lparr>rand_pos := Suc (rand_pos w)\<rparr>"]
      by (subst randSeq_loop.simps) (simp add: rand_Intn_def Suc_diff_Suc)
  next
    case False
    then show ?thesis by (subst randSeq_loop.simps) simp
  qed
qed




lemma randSeq_world: "snd (randSeq env n w) = w\<lparr>rand_pos := rand_pos w + n\<rparr>"
  by (simp add: randSeq_def randSeq_loop_world)


lemma digit_char_code: "d < 10 \<Longrightarrow> of_char (digit_char d) = (48 + d :: nat)"
proof -
  assume "d < 10"
  then have "d \<in> {0, 1, 2, 3, 4, 5, 6, 7, 8, 9}" by auto
  then show ?thesis by (auto simp: digit_char_def)
qed

lemma dec_nat_value: "decimal_value (dec_nat n) = n"
proof (induction n rule: dec_nat.induct)
  case (1 n)
  show ?case
  proof (cases "n < 10")
    case True
    then show ?thesis
      by (subst dec_nat.simps) (simp add: decimal_value_def digit_char_code)
  next
    case False
    have m: "n mod 10 < 10" by simp
    from False "1.IH" have "decimal_value (dec_nat (n div 10)) = n div 10" by simp
    with False show ?thesis
      by (subst dec_nat.simps) (simp add: decimal_value_def digit_char_code [OF m])
  qed
qed

lemma int32_of_port:
  "- (2 ^ 31) \<le> port \<Longrightarrow> port < 2 ^ 31 \<Longrightarrow> sint (word_of_int port :: int32) = port"
  by (simp add: sint_sbintrunc' signed_take_bit_int_eq_self)

lemma new_events_append: "trace w' = trace w @ evs \<Longrightarrow> new_events w w' = evs"
  by (simp add: new_events_def)

lemma new_events_trans:
  "trace w1 = trace w @ evs1 \<Longrightarrow> trace w' = trace w1 @ evs2 \<Longrightarrow> new_events w w' = evs1 @ new_events w1 w'"
  by (simp add: new_events_def)

lemma new_events_self: "new_events w w = []"
  by (simp add: new_events_def)

subsection \<open>The sample runs\<close>

text \<open>
  \<^verbatim>\<open>Open\<close> on the sample requests, from the empty tracker, evaluated by rewriting with
  the definitions.
\<close>

lemma env_ok_fields:
  "rand_Int env_ok k = 7 * k + 3"
  "json_Marshal env_ok privateData = Inr (ID privateData)"
  "json_Unmarshal env_ok b = Inr \<lparr>ID = b\<rparr>"
  "ssh_ParsePrivateKey env_ok key = (if key = [] then Inl ''ssh: no key found'' else Inr 0)"
  "ssh_Dial env_ok h addr user signer =
     (if addr = ''unreachable:22'' then Some ''dial tcp: i/o timeout'' else None)"
  "time_ParseDuration env_ok s =
     (if s = ''100ms'' then Inr 100000000 else Inl ''time: invalid duration'')"
  "portforward_New env_ok h c conf =
     (case cfg_LocalPort conf of
        None \<Rightarrow> Inr (TCPAddr (40000 + int h))
      | Some p \<Rightarrow> if p = 80 then Inl ''listen tcp :80: bind: permission denied''
                  else if p = 7 then Inr OtherAddr else Inr (TCPAddr (sint p)))"
  "listener_Close env_ok h = None"
  "conn_Close env_ok h = None"
  "Result_Set env_ok data = []"
  by (simp_all add: env_ok_def)

lemma randSeq_env_ok: "randSeq env_ok 8 World0 = (''dkryFMTa'', World0\<lparr>rand_pos := 8\<rparr>)"
proof -
  have "fst (randSeq env_ok 8 World0) = ''dkryFMTa''" by code_simp
  moreover have "snd (randSeq env_ok 8 World0) = World0\<lparr>rand_pos := 8\<rparr>"
    by (simp add: randSeq_world World0_def)
  ultimately show ?thesis by (simp add: prod_eq_iff)
qed

lemmas Open_eval =
  Open_def Open_connect_def forward_loop.simps forwarding_conf_def new_TunnelInfo_def tracker_Add_def
  closeByConnectionID_def close_conn_def tracker_Get_def tracker_Remove_def
  open_request_def forwarding_def HasError_def AddError_def
  ValueString_def ValueInt32_def ValueInt32Pointer_def IsNull_def NewInt32Value_def hostAddr_def fmt_d_def
  dec_nat.simps digit_char_def connectionPrivateDataKey_def Let_def env_ok_fields randSeq_env_ok

lemma two_forwardings_run:
  "trace (snd (Open env_ok two_forwardings World0)) =
     [EvAdd ''dkryFMTa'' 0, EvDial ''::1:22'' ''deploy'' (Inr 0),
      EvNew 0 \<lparr>cfg_LocalPort = None, cfg_RemoteAddr = ''2001:db8::7:5432'',
               cfg_RetryDelay = 100000000, cfg_RetryAttempts = 2\<rparr>
        (Inr \<lparr>lis_handle = 1, lis_addr = TCPAddr 40001\<rparr>),
      EvNew 0 \<lparr>cfg_LocalPort = Some 8080, cfg_RemoteAddr = ''web:80'',
               cfg_RetryDelay = 0, cfg_RetryAttempts = 2\<rparr>
        (Inr \<lparr>lis_handle = 2, lis_addr = TCPAddr 8080\<rparr>)]"
  "resp_Diagnostics (fst (Open env_ok two_forwardings World0)) = []"
  "tracker (snd (Open env_ok two_forwardings World0)) ''dkryFMTa'' = Some 0"
  "heap (snd (Open env_ok two_forwardings World0)) 0 =
     \<lparr>conn = Some 0, listeners = [\<lparr>lis_handle = 1, lis_addr = TCPAddr 40001\<rparr>,
                                  \<lparr>lis_handle = 2, lis_addr = TCPAddr 8080\<rparr>]\<rparr>"
  "resp_Result (fst (Open env_ok two_forwardings World0)) =
     Some \<lparr>Host = Known ''::1'', Port = Known 22, User = Known ''deploy'',
           Auth = \<lparr>PrivateKey = Known ''KEY''\<rparr>,
           LocalPortForwardings =
             [forwarding (Known 40001) ''2001:db8::7'' 5432 (Known ''100ms''),
              forwarding (Known 8080) ''web'' 80 Null]\<rparr>"
  by (simp_all add: two_forwardings_def Open_eval) (simp_all add: World0_def)

lemma bad_key_run:
  "trace (snd (Open env_ok bad_key World0)) = [EvAdd ''dkryFMTa'' 0]"
  "resp_Diagnostics (fst (Open env_ok bad_key World0)) =
     [ErrorDiagnostic ''Private Key Error'' ''Unable to parse private key, got error: ssh: no key found'']"
  "tracker (snd (Open env_ok bad_key World0)) ''dkryFMTa'' = Some 0"
  "heap (snd (Open env_ok bad_key World0)) 0 = \<lparr>conn = None, listeners = []\<rparr>"
  by (simp_all add: bad_key_def Open_eval) (simp_all add: World0_def)

lemma unreachable_host_run:
  "trace (snd (Open env_ok unreachable_host World0)) =
     [EvAdd ''dkryFMTa'' 0, EvDial ''unreachable:22'' ''deploy'' (Inl ''dial tcp: i/o timeout'')]"
  "resp_Diagnostics (fst (Open env_ok unreachable_host World0)) =
     [ErrorDiagnostic ''Connection Error''
        ''Unable to connect to host unreachable, got error: dial tcp: i/o timeout'']"
  "tracker (snd (Open env_ok unreachable_host World0)) ''dkryFMTa'' = Some 0"
  "heap (snd (Open env_ok unreachable_host World0)) 0 = \<lparr>conn = None, listeners = []\<rparr>"
  by (simp_all add: unreachable_host_def Open_eval) (simp_all add: World0_def)

lemma bad_delay_run:
  "trace (snd (Open env_ok bad_delay World0)) =
     [EvAdd ''dkryFMTa'' 0, EvDial ''db.internal:22'' ''deploy'' (Inr 0),
      EvNew 0 \<lparr>cfg_LocalPort = None, cfg_RemoteAddr = ''::1:5432'',
               cfg_RetryDelay = 100000000, cfg_RetryAttempts = 2\<rparr>
        (Inr \<lparr>lis_handle = 1, lis_addr = TCPAddr 40001\<rparr>)]"
  "resp_Diagnostics (fst (Open env_ok bad_delay World0)) =
     [ErrorDiagnostic ''Local Port Forwarding Error'' ''Invalid retry delay: time: invalid duration'']"
  "tracker (snd (Open env_ok bad_delay World0)) ''dkryFMTa'' = Some 0"
  "heap (snd (Open env_ok bad_delay World0)) 0 =
     \<lparr>conn = Some 0, listeners = [\<lparr>lis_handle = 1, lis_addr = TCPAddr 40001\<rparr>]\<rparr>"
  by (simp_all add: bad_delay_def Open_eval) (simp_all add: World0_def)

lemma port_in_use_run:
  "trace (snd (Open env_ok port_in_use World0)) =
     [EvAdd ''dkryFMTa'' 0, EvDial ''db.internal:22'' ''deploy'' (Inr 0),
      EvNew 0 \<lparr>cfg_LocalPort = None, cfg_RemoteAddr = ''::1:5432'',
               cfg_RetryDelay = 100000000, cfg_RetryAttempts = 2\<rparr>
        (Inr \<lparr>lis_handle = 1, lis_addr = TCPAddr 40001\<rparr>),
      EvNew 0 \<lparr>cfg_LocalPort = Some 80, cfg_RemoteAddr = ''web:80'',
               cfg_RetryDelay = 0, cfg_RetryAttempts = 2\<rparr>
        (Inl ''listen tcp :80: bind: permission denied''),
      EvListenerClose 1, EvConnClose 0, EvRemove ''dkryFMTa'']"
  "resp_Diagnostics (fst (Open env_ok port_in_use World0)) =
     [ErrorDiagnostic ''Port Forwarding Error''
        ''Unable to create port forwarding, got error: listen tcp :80: bind: permission denied'']"
  "tracker (snd (Open env_ok port_in_use World0)) ''dkryFMTa'' = None"
  by (simp_all add: port_in_use_def Open_eval close_listeners.simps) (simp_all add: World0_def)

subsection \<open>Teardown\<close>

lemma close_listeners_world:
  "snd (close_listeners env ls diags w) =
     w\<lparr>trace := trace w @ map (\<lambda>l. EvListenerClose (lis_handle l)) ls\<rparr>"
  by (induction ls arbitrary: diags w) (simp_all add: Let_def)

lemma close_listeners_keeps: "set diags \<subseteq> set (fst (close_listeners env ls diags w))"
proof (induction ls arbitrary: diags w)
  case Nil
  then show ?case by simp
next
  case (Cons l ls)
  show ?case
  proof (cases "listener_Close env (lis_handle l)")
    case None
    then show ?thesis using Cons.IH by (simp add: Let_def)
  next
    case (Some err)
    have "set diags \<subseteq> set (AddError diags ''Failed to close listener'' (''Failed to close listener: '' @ err))"
      by (auto simp: set_AddError)
    also have "\<dots> \<subseteq> set (fst (close_listeners env (l # ls) diags w))"
      using Some Cons.IH by (simp add: Let_def)
    finally show ?thesis .
  qed
qed

lemma close_listeners_collects:
  "l \<in> set ls \<Longrightarrow> listener_Close env (lis_handle l) = Some err \<Longrightarrow>
     ErrorDiagnostic ''Failed to close listener'' (''Failed to close listener: '' @ err)
       \<in> set (fst (close_listeners env ls diags w))"
proof (induction ls arbitrary: diags w)
  case Nil
  then show ?case by simp
next
  case (Cons x ls)
  show ?case
  proof (cases "l = x")
    case True
    let ?d = "AddError diags ''Failed to close listener'' (''Failed to close listener: '' @ err)"
    have "ErrorDiagnostic ''Failed to close listener'' (''Failed to close listener: '' @ err) \<in> set ?d"
      by (simp add: set_AddError)
    moreover have "set ?d \<subseteq> set (fst (close_listeners env ls ?d (w\<lparr>trace := trace w @ [EvListenerClose (lis_handle x)]\<rparr>)))"
      by (rule close_listeners_keeps)
    ultimately show ?thesis using True Cons.prems(2) by (auto simp: Let_def)
  next
    case False
    with Cons.prems have "l \<in> set ls" by simp
    from Cons.IH [OF this Cons.prems(2)] show ?thesis by (simp add: Let_def)
  qed
qed

lemma close_listeners_origin:
  "d \<in> set (fst (close_listeners env ls diags w)) \<Longrightarrow>
     d \<in> set diags \<or> (\<exists>detail. d = ErrorDiagnostic ''Failed to close listener'' detail)"
proof (induction ls arbitrary: diags w)
  case Nil
  then show ?case by simp
next
  case (Cons x ls)
  show ?case
  proof (cases "listener_Close env (lis_handle x)")
    case None
    then show ?thesis using Cons.IH Cons.prems by (simp add: Let_def)
  next
    case (Some err)
    let ?d = "AddError diags ''Failed to close listener'' (''Failed to close listener: '' @ err)"
    from Some Cons.prems
    have "d \<in> set (fst (close_listeners env ls ?d (w\<lparr>trace := trace w @ [EvListenerClose (lis_handle x)]\<rparr>)))"
      by (simp add: Let_def)
    from Cons.IH [OF this] show ?thesis by (auto simp: set_AddError)
  qed
qed

lemma close_conn_world:
  "snd (close_conn env c diags w) =
     w\<lparr>trace := trace w @ (case c of None \<Rightarrow> [] | Some h \<Rightarrow> [EvConnClose h])\<rparr>"
  by (cases c) (simp_all add: close_conn_def)

lemma close_conn_keeps: "set diags \<subseteq> set (fst (close_conn env c diags w))"
  by (auto simp: close_conn_def set_AddError split: option.splits)

lemma close_conn_collects:
  "conn_Close env h = Some err \<Longrightarrow>
     ErrorDiagnostic ''Failed to close connection'' (''Failed to close connection: '' @ err)
       \<in> set (fst (close_conn env (Some h) diags w))"
  by (simp add: close_conn_def set_AddError)

lemma close_conn_None: "close_conn env None diags w = (diags, w)"
  by (simp add: close_conn_def)

lemma closeByConnectionID_absent:
  "tracker w id' = None \<Longrightarrow> closeByConnectionID env id' w = ([], w)"
  by (simp add: closeByConnectionID_def tracker_Get_def)

lemma closeByConnectionID_world:
  assumes "tracker w id' = Some a"
  shows "snd (closeByConnectionID env id' w) =
           w\<lparr>tracker := (tracker w)(id' := None),
             trace := trace w @ map (\<lambda>l. EvListenerClose (lis_handle l)) (listeners (heap w a))
                        @ (case conn (heap w a) of None \<Rightarrow> [] | Some h \<Rightarrow> [EvConnClose h])
                        @ [EvRemove id']\<rparr>"
proof -
  obtain d1 w1 where c1: "close_listeners env (listeners (heap w a)) [] w = (d1, w1)"
    by (cases "close_listeners env (listeners (heap w a)) [] w")
  obtain d2 w2 where c2: "close_conn env (conn (heap w1 a)) d1 w1 = (d2, w2)"
    by (cases "close_conn env (conn (heap w1 a)) d1 w1")
  have w1: "w1 = w\<lparr>trace := trace w @ map (\<lambda>l. EvListenerClose (lis_handle l)) (listeners (heap w a))\<rparr>"
    using close_listeners_world [of env "listeners (heap w a)" "[]" w] c1 by simp
  have w2: "w2 = w1\<lparr>trace := trace w1 @ (case conn (heap w1 a) of None \<Rightarrow> [] | Some h \<Rightarrow> [EvConnClose h])\<rparr>"
    using close_conn_world [of env "conn (heap w1 a)" d1 w1] c2 by simp
  have "snd (closeByConnectionID env id' w) = tracker_Remove id' w2"
    using assms c1 c2 by (simp add: closeByConnectionID_def tracker_Get_def)
  then show ?thesis
    by (simp add: w2 w1 tracker_Remove_def)
qed

lemma closeByConnectionID_diags:
  assumes "tracker w id' = Some a"
  shows "fst (closeByConnectionID env id' w) =
           fst (close_conn env (conn (heap w a))
                  (fst (close_listeners env (listeners (heap w a)) [] w))
                  (snd (close_listeners env (listeners (heap w a)) [] w)))"
proof -
  obtain d1 w1 where c1: "close_listeners env (listeners (heap w a)) [] w = (d1, w1)"
    by (cases "close_listeners env (listeners (heap w a)) [] w")
  have w1: "heap w1 = heap w"
    using close_listeners_world [of env "listeners (heap w a)" "[]" w] c1 by simp
  show ?thesis
    using assms c1 w1 by (simp add: closeByConnectionID_def tracker_Get_def split: prod.splits)
qed

lemma closeByConnectionID_heap: "heap (snd (closeByConnectionID env id' w)) = heap w"
proof (cases "tracker w id'")
  case None
  then show ?thesis by (simp add: closeByConnectionID_absent)
next
  case (Some a)
  then show ?thesis by (simp add: closeByConnectionID_world)
qed

lemma Close_heap: "heap (snd (Close env creq w)) = heap w"
proof (cases "Private_GetKey creq connectionPrivateDataKey")
  case (Pair b ds)
  show ?thesis
  proof (cases "json_Unmarshal env b")
    case (Inl err)
    with Pair show ?thesis by (simp add: Close_def)
  next
    case (Inr privateData)
    with Pair closeByConnectionID_heap [of env "ID privateData" w] show ?thesis
      by (cases "closeByConnectionID env (ID privateData) w") (simp add: Close_def)
  qed
qed

text \<open>
  Claim C2. For an identifier the tracker holds, teardown closes every listener of the
  record in order, then the client (when the record has one), then removes the entry:
  the trace grows by exactly these events in this order. No close error stops it: the
  entry is removed whatever the close calls return, and the error of every listener
  and of the client is among the diagnostics returned.
\<close>

theorem closeByConnectionID_teardown_order:
  assumes "tracker w id' = Some a"
  shows "trace (snd (closeByConnectionID env id' w)) =
           trace w @ map (\<lambda>l. EvListenerClose (lis_handle l)) (listeners (heap w a))
             @ (case conn (heap w a) of None \<Rightarrow> [] | Some h \<Rightarrow> [EvConnClose h])
             @ [EvRemove id']
         \<and> tracker (snd (closeByConnectionID env id' w)) = (tracker w)(id' := None)
         \<and> (\<forall>l \<in> set (listeners (heap w a)). \<forall>err.
              listener_Close env (lis_handle l) = Some err \<longrightarrow>
              ErrorDiagnostic ''Failed to close listener'' (''Failed to close listener: '' @ err)
                \<in> set (fst (closeByConnectionID env id' w)))
         \<and> (\<forall>h err. conn (heap w a) = Some h \<and> conn_Close env h = Some err \<longrightarrow>
              ErrorDiagnostic ''Failed to close connection'' (''Failed to close connection: '' @ err)
                \<in> set (fst (closeByConnectionID env id' w)))"
proof (intro conjI ballI allI impI)
  show "trace (snd (closeByConnectionID env id' w)) =
           trace w @ map (\<lambda>l. EvListenerClose (lis_handle l)) (listeners (heap w a))
             @ (case conn (heap w a) of None \<Rightarrow> [] | Some h \<Rightarrow> [EvConnClose h])
             @ [EvRemove id']"
    by (simp add: closeByConnectionID_world [OF assms])
  show "tracker (snd (closeByConnectionID env id' w)) = (tracker w)(id' := None)"
    by (simp add: closeByConnectionID_world [OF assms])
next
  fix l err
  assume l: "l \<in> set (listeners (heap w a))" and e: "listener_Close env (lis_handle l) = Some err"
  have "ErrorDiagnostic ''Failed to close listener'' (''Failed to close listener: '' @ err)
          \<in> set (fst (close_listeners env (listeners (heap w a)) [] w))"
    by (rule close_listeners_collects [OF l e])
  then have "ErrorDiagnostic ''Failed to close listener'' (''Failed to close listener: '' @ err)
          \<in> set (fst (close_conn env (conn (heap w a))
                  (fst (close_listeners env (listeners (heap w a)) [] w))
                  (snd (close_listeners env (listeners (heap w a)) [] w))))"
    by (rule subsetD [OF close_conn_keeps])
  then show "ErrorDiagnostic ''Failed to close listener'' (''Failed to close listener: '' @ err)
                \<in> set (fst (closeByConnectionID env id' w))"
    by (simp only: closeByConnectionID_diags [OF assms])
next
  fix h err
  assume "conn (heap w a) = Some h \<and> conn_Close env h = Some err"
  then have c: "conn (heap w a) = Some h" and e: "conn_Close env h = Some err"
    by simp_all
  show "ErrorDiagnostic ''Failed to close connection'' (''Failed to close connection: '' @ err)
                \<in> set (fst (closeByConnectionID env id' w))"
    unfolding closeByConnectionID_diags [OF assms] c by (rule close_conn_collects [OF e])
qed

theorem closeByConnectionID_teardown_order_witness:
  "tracker (snd (Open env_ok two_forwardings World0)) ''dkryFMTa'' = Some 0
   \<and> new_events (snd (Open env_ok two_forwardings World0))
         (snd (closeByConnectionID env_close_fails ''dkryFMTa'' (snd (Open env_ok two_forwardings World0))))
       = [EvListenerClose 1, EvListenerClose 2, EvConnClose 0, EvRemove ''dkryFMTa'']
   \<and> tracker (snd (closeByConnectionID env_close_fails ''dkryFMTa''
                     (snd (Open env_ok two_forwardings World0)))) ''dkryFMTa'' = None
   \<and> ErrorDiagnostic ''Failed to close listener''
         ''Failed to close listener: use of closed network connection''
       \<in> set (fst (closeByConnectionID env_close_fails ''dkryFMTa''
                      (snd (Open env_ok two_forwardings World0))))
   \<and> ErrorDiagnostic ''Failed to close connection'' ''Failed to close connection: EOF''
       \<in> set (fst (closeByConnectionID env_close_fails ''dkryFMTa''
                      (snd (Open env_ok two_forwardings World0))))"
proof -
  let ?w = "snd (Open env_ok two_forwardings World0)"
  have h: "tracker ?w ''dkryFMTa'' = Some 0"
    by (rule two_forwardings_run(3))
  note r = two_forwardings_run(4)
  have lc: "listener_Close env_close_fails k = Some ''use of closed network connection''" for k
    by (simp add: env_close_fails_def)
  have cc: "conn_Close env_close_fails k = Some ''EOF''" for k
    by (simp add: env_close_fails_def)
  note T = closeByConnectionID_teardown_order [OF h, of env_close_fails]
  from T have "trace (snd (closeByConnectionID env_close_fails ''dkryFMTa'' ?w)) =
      trace ?w @ [EvListenerClose 1, EvListenerClose 2, EvConnClose 0, EvRemove ''dkryFMTa'']"
    by (simp add: r)
  then have 1: "new_events ?w (snd (closeByConnectionID env_close_fails ''dkryFMTa'' ?w))
       = [EvListenerClose 1, EvListenerClose 2, EvConnClose 0, EvRemove ''dkryFMTa'']"
    by (rule new_events_append)
  from T have 2: "tracker (snd (closeByConnectionID env_close_fails ''dkryFMTa'' ?w)) ''dkryFMTa'' = None"
    by simp
  from T have 3: "ErrorDiagnostic ''Failed to close listener''
         ''Failed to close listener: use of closed network connection''
       \<in> set (fst (closeByConnectionID env_close_fails ''dkryFMTa'' ?w))"
    by (auto simp: r lc)
  from T have 4: "ErrorDiagnostic ''Failed to close connection'' ''Failed to close connection: EOF''
       \<in> set (fst (closeByConnectionID env_close_fails ''dkryFMTa'' ?w))"
    by (auto simp: r cc)
  from h 1 2 3 4 show ?thesis by blast
qed

text \<open>
  Claim C3. For an identifier the tracker does not hold, \<^verbatim>\<open>closeByConnectionID\<close> and
  \<^verbatim>\<open>Close\<close> (on private data that decodes to this identifier) return no diagnostic and
  leave the state as it is. A second \<^verbatim>\<open>Close\<close> right after a first one, with the same
  request, is such a call: it returns no diagnostic and changes nothing.
\<close>

theorem Close_unknown_identifier_noop:
  assumes "tracker w id' = None"
  shows "closeByConnectionID env id' w = ([], w)
         \<and> (\<not> HasError (snd (Private_GetKey req connectionPrivateDataKey))
              \<and> json_Unmarshal env (fst (Private_GetKey req connectionPrivateDataKey)) = Inr \<lparr>ID = id'\<rparr>
            \<longrightarrow> Close env req w = ([], w))
         \<and> (\<not> HasError (snd (Private_GetKey req' connectionPrivateDataKey))
              \<and> json_Unmarshal env' (fst (Private_GetKey req' connectionPrivateDataKey)) = Inr \<lparr>ID = id''\<rparr>
            \<longrightarrow> Close env' req' (snd (Close env' req' w0)) = ([], snd (Close env' req' w0)))"
proof -
  have absent: "closeByConnectionID e i v = ([], v)" if "tracker v i = None" for e i v
    using that by (rule closeByConnectionID_absent)
  have close_absent: "Close e r v = ([], v)"
    if "tracker v i = None" "\<not> HasError (snd (Private_GetKey r connectionPrivateDataKey))"
       "json_Unmarshal e (fst (Private_GetKey r connectionPrivateDataKey)) = Inr \<lparr>ID = i\<rparr>"
    for e r v i
    using that by (cases "Private_GetKey r connectionPrivateDataKey") (simp add: Close_def absent)
  have removed: "tracker (snd (closeByConnectionID e i v)) i = None" for e i v
  proof (cases "tracker v i")
    case None
    then show ?thesis by (simp add: absent)
  next
    case (Some a)
    then show ?thesis by (simp add: closeByConnectionID_world)
  qed
  have twice: "Close e r (snd (Close e r v)) = ([], snd (Close e r v))"
    if ok: "\<not> HasError (snd (Private_GetKey r connectionPrivateDataKey))"
       "json_Unmarshal e (fst (Private_GetKey r connectionPrivateDataKey)) = Inr \<lparr>ID = i\<rparr>"
    for e r v i
  proof -
    have "snd (Close e r v) = snd (closeByConnectionID e i v)"
      using ok by (cases "Private_GetKey r connectionPrivateDataKey")
                  (simp add: Close_def split: prod.splits)
    then have "tracker (snd (Close e r v)) i = None"
      by (simp add: removed)
    then show ?thesis using ok by (rule close_absent)
  qed
  show ?thesis
    using absent [OF assms] close_absent [OF assms] twice by blast
qed

theorem Close_unknown_identifier_noop_witness:
  "tracker World0 ''dkryFMTa'' = None
   \<and> closeByConnectionID env_close_fails ''dkryFMTa'' World0 = ([], World0)
   \<and> Close env_close_fails (close_request ''dkryFMTa'') World0 = ([], World0)
   \<and> Close env_close_fails (close_request ''dkryFMTa'')
         (snd (Close env_close_fails (close_request ''dkryFMTa'')
                 (snd (Open env_ok two_forwardings World0))))
       = ([], snd (Close env_close_fails (close_request ''dkryFMTa'')
                     (snd (Open env_ok two_forwardings World0))))"
proof -
  have h: "tracker World0 ''dkryFMTa'' = None"
    by (simp add: World0_def)
  have g: "\<not> HasError (snd (Private_GetKey (close_request ''dkryFMTa'') connectionPrivateDataKey))"
    by (simp add: close_request_def connectionPrivateDataKey_def HasError_def)
  have u: "json_Unmarshal env_close_fails
             (fst (Private_GetKey (close_request ''dkryFMTa'') connectionPrivateDataKey))
           = Inr \<lparr>ID = ''dkryFMTa''\<rparr>"
    by (simp add: close_request_def connectionPrivateDataKey_def env_close_fails_def env_ok_def)
  show ?thesis
    using Close_unknown_identifier_noop [OF h, of env_close_fails "close_request ''dkryFMTa''"
            "close_request ''dkryFMTa''" env_close_fails "''dkryFMTa''"
            "snd (Open env_ok two_forwardings World0)"] h g u
    by simp
qed

text \<open>
  Claim C9. For a registered record whose client is nil, teardown closes the listeners
  of the record, calls no close on any client, removes the entry, and returns only what
  closing the listeners produced: no diagnostic of a failed connection close.
\<close>

theorem closeByConnectionID_nil_transport:
  assumes "tracker w id' = Some a" and "conn (heap w a) = None"
  shows "closeByConnectionID env id' w =
           (fst (close_listeners env (listeners (heap w a)) [] w),
            w\<lparr>tracker := (tracker w)(id' := None),
              trace := trace w @ map (\<lambda>l. EvListenerClose (lis_handle l)) (listeners (heap w a))
                         @ [EvRemove id']\<rparr>)
         \<and> (\<forall>h. EvConnClose h \<notin> set (new_events w (snd (closeByConnectionID env id' w))))
         \<and> (\<forall>detail. ErrorDiagnostic ''Failed to close connection'' detail
                        \<notin> set (fst (closeByConnectionID env id' w)))"
proof -
  have d: "fst (closeByConnectionID env id' w) = fst (close_listeners env (listeners (heap w a)) [] w)"
    using assms by (simp add: closeByConnectionID_diags close_conn_None)
  have s: "snd (closeByConnectionID env id' w) =
            w\<lparr>tracker := (tracker w)(id' := None),
              trace := trace w @ map (\<lambda>l. EvListenerClose (lis_handle l)) (listeners (heap w a))
                         @ [EvRemove id']\<rparr>"
    using assms by (simp add: closeByConnectionID_world)
  have n: "EvConnClose h \<notin> set (new_events w (snd (closeByConnectionID env id' w)))" for h
    by (auto simp: s new_events_def)
  have e: "ErrorDiagnostic ''Failed to close connection'' detail
             \<notin> set (fst (closeByConnectionID env id' w))" for detail
  proof
    assume "ErrorDiagnostic ''Failed to close connection'' detail
              \<in> set (fst (closeByConnectionID env id' w))"
    then have "ErrorDiagnostic ''Failed to close connection'' detail
              \<in> set (fst (close_listeners env (listeners (heap w a)) [] w))"
      by (simp only: d)
    from close_listeners_origin [OF this] show False by simp
  qed
  show ?thesis using d s n e by (simp add: prod_eq_iff)
qed

theorem closeByConnectionID_nil_transport_witness:
  "tracker (snd (Open env_ok bad_key World0)) ''dkryFMTa'' = Some 0
   \<and> conn (heap (snd (Open env_ok bad_key World0)) 0) = None
   \<and> fst (closeByConnectionID env_close_fails ''dkryFMTa'' (snd (Open env_ok bad_key World0))) = []
   \<and> trace (snd (closeByConnectionID env_close_fails ''dkryFMTa'' (snd (Open env_ok bad_key World0))))
       = [EvAdd ''dkryFMTa'' 0, EvRemove ''dkryFMTa'']
   \<and> tracker (snd (closeByConnectionID env_close_fails ''dkryFMTa''
                     (snd (Open env_ok bad_key World0)))) ''dkryFMTa'' = None"
proof -
  let ?w = "snd (Open env_ok bad_key World0)"
  have h: "tracker ?w ''dkryFMTa'' = Some 0"
    by (rule bad_key_run(3))
  have c: "conn (heap ?w 0) = None"
    by (simp add: bad_key_run(4))
  have l: "listeners (heap ?w 0) = []"
    by (simp add: bad_key_run(4))
  note t = bad_key_run(1)
  show ?thesis
    using closeByConnectionID_nil_transport [OF h c, of env_close_fails] h c
    by (simp add: l t)
qed

subsection \<open>The forwarding loop, one iteration at a time\<close>

lemma forward_loop_conf_error:
  "forwarding_conf env f = Inl err \<Longrightarrow>
   forward_loop env id' a c (f # rest) diags w =
     (Returned, f # rest,
      AddError diags ''Local Port Forwarding Error'' (''Invalid retry delay: '' @ err), w)"
  by simp

lemma forward_loop_New_error:
  "forwarding_conf env f = Inr conf \<Longrightarrow> portforward_New env (next_handle w) c conf = Inl err \<Longrightarrow>
   w1 = w\<lparr>trace := trace w @ [EvNew c conf (Inl err)]\<rparr> \<Longrightarrow>
   forward_loop env id' a c (f # rest) diags w =
     (Returned, f # rest,
      Append (AddError diags ''Port Forwarding Error''
                (''Unable to create port forwarding, got error: '' @ err))
             (fst (closeByConnectionID env id' w1)),
      snd (closeByConnectionID env id' w1))"
  by (simp add: Let_def split: prod.splits)

lemma forward_loop_not_TCP:
  "forwarding_conf env f = Inr conf \<Longrightarrow> portforward_New env (next_handle w) c conf = Inr OtherAddr \<Longrightarrow>
   l = \<lparr>lis_handle = next_handle w, lis_addr = OtherAddr\<rparr> \<Longrightarrow>
   w2 = w\<lparr>trace := trace w @ [EvNew c conf (Inr l)], next_handle := Suc (next_handle w),
          heap := (heap w)(a := (heap w a)\<lparr>listeners := listeners (heap w a) @ [l]\<rparr>)\<rparr> \<Longrightarrow>
   forward_loop env id' a c (f # rest) diags w =
     (Returned, f # rest,
      Append (AddError diags ''Port Forwarding Error'' ''Listener address is not a TCP address'')
             (fst (closeByConnectionID env id' w2)),
      snd (closeByConnectionID env id' w2))"
  by (simp add: Let_def split: prod.splits)

lemma forward_loop_next:
  "forwarding_conf env f = Inr conf \<Longrightarrow>
   portforward_New env (next_handle w) c conf = Inr (TCPAddr port) \<Longrightarrow>
   l = \<lparr>lis_handle = next_handle w, lis_addr = TCPAddr port\<rparr> \<Longrightarrow>
   w2 = w\<lparr>trace := trace w @ [EvNew c conf (Inr l)], next_handle := Suc (next_handle w),
          heap := (heap w)(a := (heap w a)\<lparr>listeners := listeners (heap w a) @ [l]\<rparr>)\<rparr> \<Longrightarrow>
   forward_loop env id' a c rest diags w2 = (exit, rest', diags', w') \<Longrightarrow>
   forward_loop env id' a c (f # rest) diags w =
     (exit, f\<lparr>LocalPort := NewInt32Value (word_of_int port)\<rparr> # rest', diags', w')"
  by (simp add: Let_def)

text \<open>
The four ways an iteration can go.
\<close>

lemma forward_loop_cases:
  obtains
    (conf_error) err where "forwarding_conf env f = Inl err"
  | (New_error) conf err where "forwarding_conf env f = Inr conf"
      "portforward_New env (next_handle w) c conf = Inl err"
  | (not_TCP) conf where "forwarding_conf env f = Inr conf"
      "portforward_New env (next_handle w) c conf = Inr OtherAddr"
  | (bound) conf port where "forwarding_conf env f = Inr conf"
      "portforward_New env (next_handle w) c conf = Inr (TCPAddr port)"
proof (cases "forwarding_conf env f")
  case (Inl err)
  then show ?thesis by (rule conf_error)
next
  case (Inr conf)
  note conf = this
  show ?thesis
  proof (cases "portforward_New env (next_handle w) c conf")
    case (Inl err)
    with conf show ?thesis by (rule New_error)
  next
    case (Inr addr)
    then show ?thesis using conf not_TCP bound by (cases addr) auto
  qed
qed

declare forward_loop.simps(2) [simp del]

text \<open>
What the loop never touches, and the shape of what it does.
\<close>

lemma forward_loop_frame:
  assumes "tracker w id' = Some a"
      and "forward_loop env id' a c fwds diags w = (exit, out, diags', w')"
  shows "\<exists>evs ls. trace w' = trace w @ evs
           \<and> heap w' = (heap w)(a := (heap w a)\<lparr>listeners := listeners (heap w a) @ ls\<rparr>)
           \<and> next_addr w' = next_addr w \<and> rand_pos w' = rand_pos w
           \<and> (tracker w' = tracker w \<or> tracker w' = (tracker w)(id' := None))"
  using assms
proof (induction fwds arbitrary: w exit out diags' w')
  case Nil
  then have "w' = w" by simp
  then show ?case by (intro exI [of _ "[]"]) simp
next
  case (Cons f rest)
  show ?case
  proof (cases rule: forward_loop_cases [where env = env and f = f and w = w and c = c])
    case (conf_error err)
    from forward_loop_conf_error [OF this] Cons.prems(2) have "w' = w" by simp
    then show ?thesis by (intro exI [of _ "[]"]) simp
  next
    case (New_error conf err)
    let ?w1 = "w\<lparr>trace := trace w @ [EvNew c conf (Inl err)]\<rparr>"
    have reg: "tracker ?w1 id' = Some a" using Cons.prems(1) by simp
    from forward_loop_New_error [OF New_error refl] Cons.prems(2)
    have "w' = snd (closeByConnectionID env id' ?w1)" by simp
    then show ?thesis
      by (intro exI [of _ "[]"] exI [of _ "EvNew c conf (Inl err) # _"])
         (simp add: closeByConnectionID_world [OF reg])
  next
    case (not_TCP conf)
    let ?l = "\<lparr>lis_handle = next_handle w, lis_addr = OtherAddr\<rparr>"
    let ?w2 = "w\<lparr>trace := trace w @ [EvNew c conf (Inr ?l)], next_handle := Suc (next_handle w),
          heap := (heap w)(a := (heap w a)\<lparr>listeners := listeners (heap w a) @ [?l]\<rparr>)\<rparr>"
    have reg: "tracker ?w2 id' = Some a" using Cons.prems(1) by simp
    from forward_loop_not_TCP [OF not_TCP refl refl] Cons.prems(2)
    have "w' = snd (closeByConnectionID env id' ?w2)" by simp
    then show ?thesis
      by (intro exI [of _ "[?l]"] exI [of _ "EvNew c conf (Inr ?l) # _"])
         (simp add: closeByConnectionID_world [OF reg])
  next
    case (bound conf port)
    let ?l = "\<lparr>lis_handle = next_handle w, lis_addr = TCPAddr port\<rparr>"
    let ?w2 = "w\<lparr>trace := trace w @ [EvNew c conf (Inr ?l)], next_handle := Suc (next_handle w),
          heap := (heap w)(a := (heap w a)\<lparr>listeners := listeners (heap w a) @ [?l]\<rparr>)\<rparr>"
    have reg: "tracker ?w2 id' = Some a" using Cons.prems(1) by simp
    obtain e r d v where rec: "forward_loop env id' a c rest diags ?w2 = (e, r, d, v)"
      by (cases "forward_loop env id' a c rest diags ?w2") auto
    from forward_loop_next [OF bound refl refl rec] Cons.prems(2)
    have v: "v = w'" by simp
    from Cons.IH [OF reg rec [unfolded v]] obtain evs ls where
      IH: "trace w' = trace ?w2 @ evs"
          "heap w' = (heap ?w2)(a := (heap ?w2 a)\<lparr>listeners := listeners (heap ?w2 a) @ ls\<rparr>)"
          "next_addr w' = next_addr ?w2" "rand_pos w' = rand_pos ?w2"
          "tracker w' = tracker ?w2 \<or> tracker w' = (tracker ?w2)(id' := None)"
      by blast
    have "trace w' = trace w @ (EvNew c conf (Inr ?l) # evs)"
      using IH(1) by simp
    moreover have "heap w' = (heap w)(a := (heap w a)\<lparr>listeners := listeners (heap w a) @ (?l # ls)\<rparr>)"
      using IH(2) by simp
    moreover have "next_addr w' = next_addr w" "rand_pos w' = rand_pos w"
      using IH(3,4) by simp_all
    moreover have "tracker w' = tracker w \<or> tracker w' = (tracker w)(id' := None)"
      using IH(5) by simp
    ultimately show ?thesis by blast
  qed
qed

lemma forward_loop_Returned_HasError:
  "forward_loop env id' a c fwds diags w = (Returned, out, diags', w') \<Longrightarrow> HasError diags'"
proof (induction fwds arbitrary: w out diags' w')
  case Nil
  then show ?case by simp
next
  case (Cons f rest)
  show ?case
  proof (cases rule: forward_loop_cases [where env = env and f = f and w = w and c = c])
    case (conf_error err)
    from forward_loop_conf_error [OF this] Cons.prems show ?thesis
      by (auto simp: HasError_AddError)
  next
    case (New_error conf err)
    from forward_loop_New_error [OF New_error refl] Cons.prems show ?thesis
      by (auto simp: HasError_Append HasError_AddError)
  next
    case (not_TCP conf)
    from forward_loop_not_TCP [OF not_TCP refl refl] Cons.prems show ?thesis
      by (auto simp: HasError_Append HasError_AddError)
  next
    case (bound conf port)
    let ?l = "\<lparr>lis_handle = next_handle w, lis_addr = TCPAddr port\<rparr>"
    let ?w2 = "w\<lparr>trace := trace w @ [EvNew c conf (Inr ?l)], next_handle := Suc (next_handle w),
          heap := (heap w)(a := (heap w a)\<lparr>listeners := listeners (heap w a) @ [?l]\<rparr>)\<rparr>"
    obtain e r d v where rec: "forward_loop env id' a c rest diags ?w2 = (e, r, d, v)"
      by (cases "forward_loop env id' a c rest diags ?w2") auto
    from forward_loop_next [OF bound refl refl rec] Cons.prems
    have "e = Returned" "d = diags'" by simp_all
    with Cons.IH rec show ?thesis by simp
  qed
qed

lemma created_listeners_append:
  "created_listeners (evs @ evs') = created_listeners evs @ created_listeners evs'"
  by (induction evs rule: created_listeners.induct) simp_all

text \<open>
A loop that runs to its end: one listener per forwarding, nothing else changed.
\<close>

lemma forward_loop_Completed:
  assumes "forward_loop env id' a c fwds diags w = (Completed, out, diags', w')"
  shows "diags' = diags \<and>
         (\<exists>ls confs. map (forwarding_conf env) fwds = map Inr confs
            \<and> length ls = length fwds \<and> length out = length fwds
            \<and> w' = w\<lparr>trace := trace w @ map2 (\<lambda>conf l. EvNew c conf (Inr l)) confs ls,
                      next_handle := next_handle w + length fwds,
                      heap := (heap w)(a := (heap w a)\<lparr>listeners := listeners (heap w a) @ ls\<rparr>)\<rparr>
            \<and> (\<forall>i<length fwds. \<exists>port. lis_addr (ls ! i) = TCPAddr port
                   \<and> out ! i = (fwds ! i)\<lparr>LocalPort := NewInt32Value (word_of_int port)\<rparr>))"
  using assms
proof (induction fwds arbitrary: w out diags' w')
  case Nil
  then have eq: "w' = w" "out = []" "diags' = diags" by simp_all
  have 1: "map (forwarding_conf env) [] = map Inr []" by simp
  have 2: "length ([] :: Listener list) = length ([] :: ConnectionEphemeralResourceModelLocalPortForwarding list)"
    "length out = length ([] :: ConnectionEphemeralResourceModelLocalPortForwarding list)"
    using eq by simp_all
  have 3: "w' = w\<lparr>trace := trace w @ map2 (\<lambda>conf l. EvNew c conf (Inr l)) [] [],
                      next_handle := next_handle w + length ([] :: ConnectionEphemeralResourceModelLocalPortForwarding list),
                      heap := (heap w)(a := (heap w a)\<lparr>listeners := listeners (heap w a) @ []\<rparr>)\<rparr>"
    using eq by simp
  have 4: "\<forall>i<length ([] :: ConnectionEphemeralResourceModelLocalPortForwarding list).
             \<exists>port. lis_addr ([] ! i) = TCPAddr port
                   \<and> out ! i = ([] ! i)\<lparr>LocalPort := NewInt32Value (word_of_int port)\<rparr>"
    by simp
  show ?case using eq(3) 1 2 3 4 by blast
next
  case (Cons f rest)
  show ?case
  proof (cases rule: forward_loop_cases [where env = env and f = f and w = w and c = c])
    case (conf_error err)
    from forward_loop_conf_error [OF this] Cons.prems show ?thesis by simp
  next
    case (New_error conf err)
    from forward_loop_New_error [OF New_error refl] Cons.prems show ?thesis by simp
  next
    case (not_TCP conf)
    from forward_loop_not_TCP [OF not_TCP refl refl] Cons.prems show ?thesis by simp
  next
    case (bound conf port)
    let ?l = "\<lparr>lis_handle = next_handle w, lis_addr = TCPAddr port\<rparr>"
    let ?w2 = "w\<lparr>trace := trace w @ [EvNew c conf (Inr ?l)], next_handle := Suc (next_handle w),
          heap := (heap w)(a := (heap w a)\<lparr>listeners := listeners (heap w a) @ [?l]\<rparr>)\<rparr>"
    obtain e r d v where rec: "forward_loop env id' a c rest diags ?w2 = (e, r, d, v)"
      by (cases "forward_loop env id' a c rest diags ?w2") auto
    from forward_loop_next [OF bound refl refl rec] Cons.prems
    have eq: "e = Completed" "d = diags'" "v = w'"
      and out: "out = f\<lparr>LocalPort := NewInt32Value (word_of_int port)\<rparr> # r"
      by simp_all
    from Cons.IH [OF rec [unfolded eq]] obtain ls confs where
      IH: "diags' = diags" "map (forwarding_conf env) rest = map Inr confs"
          "length ls = length rest" "length r = length rest"
          "w' = ?w2\<lparr>trace := trace ?w2 @ map2 (\<lambda>conf l. EvNew c conf (Inr l)) confs ls,
                      next_handle := next_handle ?w2 + length rest,
                      heap := (heap ?w2)(a := (heap ?w2 a)\<lparr>listeners := listeners (heap ?w2 a) @ ls\<rparr>)\<rparr>"
          "\<forall>i<length rest. \<exists>port. lis_addr (ls ! i) = TCPAddr port
                   \<and> r ! i = (rest ! i)\<lparr>LocalPort := NewInt32Value (word_of_int port)\<rparr>"
      by blast
    have 1: "map (forwarding_conf env) (f # rest) = map Inr (conf # confs)"
      using bound(1) IH(2) by simp
    have 2: "length (?l # ls) = length (f # rest)" "length out = length (f # rest)"
      using IH(3,4) out by simp_all
    have 3: "w' = w\<lparr>trace := trace w @ map2 (\<lambda>conf l. EvNew c conf (Inr l)) (conf # confs) (?l # ls),
                      next_handle := next_handle w + length (f # rest),
                      heap := (heap w)(a := (heap w a)\<lparr>listeners := listeners (heap w a) @ (?l # ls)\<rparr>)\<rparr>"
      by (subst IH(5)) simp
    have 4: "\<exists>port. lis_addr ((?l # ls) ! i) = TCPAddr port
                   \<and> out ! i = ((f # rest) ! i)\<lparr>LocalPort := NewInt32Value (word_of_int port)\<rparr>"
      if "i < length (f # rest)" for i
      using that IH(6) out by (cases i) simp_all
    show ?thesis using IH(1) 1 2 3 4 by blast
  qed
qed

text \<open>
Every event of the loop is a listener construction for one of the forwardings, or part of a teardown.
\<close>

lemma closeByConnectionID_new_events:
  assumes "tracker w id' = Some a"
  shows "new_events w (snd (closeByConnectionID env id' w)) =
           map (\<lambda>l. EvListenerClose (lis_handle l)) (listeners (heap w a))
             @ (case conn (heap w a) of None \<Rightarrow> [] | Some h \<Rightarrow> [EvConnClose h]) @ [EvRemove id']"
  by (rule new_events_append) (simp add: closeByConnectionID_world [OF assms])

lemma forward_loop_events:
  assumes "tracker w id' = Some a"
      and "forward_loop env id' a c fwds diags w = (exit, out, diags', w')"
      and "ev \<in> set (new_events w w')"
  shows "(\<exists>conf r f. ev = EvNew c conf r \<and> f \<in> set fwds \<and> forwarding_conf env f = Inr conf)
         \<or> (\<exists>h. ev = EvListenerClose h) \<or> (\<exists>h. ev = EvConnClose h) \<or> ev = EvRemove id'"
  using assms
proof (induction fwds arbitrary: w exit out diags' w')
  case Nil
  then show ?case by (simp add: new_events_def)
next
  case (Cons f rest)
  show ?case
  proof (cases rule: forward_loop_cases [where env = env and f = f and w = w and c = c])
    case (conf_error err)
    from forward_loop_conf_error [OF this] Cons.prems show ?thesis by (simp add: new_events_def)
  next
    case (New_error conf err)
    let ?w1 = "w\<lparr>trace := trace w @ [EvNew c conf (Inl err)]\<rparr>"
    have reg: "tracker ?w1 id' = Some a" using Cons.prems(1) by simp
    from forward_loop_New_error [OF New_error refl] Cons.prems(2)
    have w': "w' = snd (closeByConnectionID env id' ?w1)" by simp
    have "new_events w w' = EvNew c conf (Inl err) # new_events ?w1 w'"
      unfolding w' by (simp add: new_events_def closeByConnectionID_world [OF reg])
    with Cons.prems(3) New_error(1) show ?thesis
      unfolding w' closeByConnectionID_new_events [OF reg]
      by (auto split: option.splits)
  next
    case (not_TCP conf)
    let ?l = "\<lparr>lis_handle = next_handle w, lis_addr = OtherAddr\<rparr>"
    let ?w2 = "w\<lparr>trace := trace w @ [EvNew c conf (Inr ?l)], next_handle := Suc (next_handle w),
          heap := (heap w)(a := (heap w a)\<lparr>listeners := listeners (heap w a) @ [?l]\<rparr>)\<rparr>"
    have reg: "tracker ?w2 id' = Some a" using Cons.prems(1) by simp
    from forward_loop_not_TCP [OF not_TCP refl refl] Cons.prems(2)
    have w': "w' = snd (closeByConnectionID env id' ?w2)" by simp
    have "new_events w w' = EvNew c conf (Inr ?l) # new_events ?w2 w'"
      unfolding w' by (simp add: new_events_def closeByConnectionID_world [OF reg])
    with Cons.prems(3) not_TCP(1) show ?thesis
      unfolding w' closeByConnectionID_new_events [OF reg]
      by (auto split: option.splits)
  next
    case (bound conf port)
    let ?l = "\<lparr>lis_handle = next_handle w, lis_addr = TCPAddr port\<rparr>"
    let ?w2 = "w\<lparr>trace := trace w @ [EvNew c conf (Inr ?l)], next_handle := Suc (next_handle w),
          heap := (heap w)(a := (heap w a)\<lparr>listeners := listeners (heap w a) @ [?l]\<rparr>)\<rparr>"
    have reg: "tracker ?w2 id' = Some a" using Cons.prems(1) by simp
    obtain e r d v where rec: "forward_loop env id' a c rest diags ?w2 = (e, r, d, v)"
      by (cases "forward_loop env id' a c rest diags ?w2") auto
    from forward_loop_next [OF bound refl refl rec] Cons.prems(2)
    have v: "v = w'" by simp
    from forward_loop_frame [OF reg rec [unfolded v]] obtain evs where "trace w' = trace ?w2 @ evs"
      by blast
    then have "new_events w w' = EvNew c conf (Inr ?l) # new_events ?w2 w'"
      by (simp add: new_events_def)
    with Cons.prems(3) have "ev = EvNew c conf (Inr ?l) \<or> ev \<in> set (new_events ?w2 w')"
      by auto
    then show ?thesis
    proof
      assume "ev = EvNew c conf (Inr ?l)"
      then show ?thesis using bound(1) by auto
    next
      assume "ev \<in> set (new_events ?w2 w')"
      from Cons.IH [OF reg rec [unfolded v] this] show ?thesis by auto
    qed
  qed
qed

text \<open>
A failed listener construction: the loop tears the tunnel down and returns.
\<close>

lemma forward_loop_New_failure:
  assumes "tracker w id' = Some a" and "conn (heap w a) = Some c"
      and "forward_loop env id' a c fwds diags w = (exit, out, diags', w')"
      and "EvNew c' conf (Inl err) \<in> set (new_events w w')"
  shows "exit = Returned \<and> c' = c \<and> tracker w' = (tracker w)(id' := None)
         \<and> ErrorDiagnostic ''Port Forwarding Error''
              (''Unable to create port forwarding, got error: '' @ err) \<in> set diags'
         \<and> (\<exists>evs. new_events w w' =
                evs @ [EvNew c conf (Inl err)]
                  @ map (\<lambda>l. EvListenerClose (lis_handle l)) (listeners (heap w a) @ created_listeners evs)
                  @ [EvConnClose c, EvRemove id']
              \<and> (\<forall>ev\<in>set evs. \<exists>conf' l. ev = EvNew c conf' (Inr l)))"
  using assms
proof (induction fwds arbitrary: w exit out diags' w')
  case Nil
  then show ?case by (simp add: new_events_def)
next
  case (Cons f rest)
  show ?case
  proof (cases rule: forward_loop_cases [where env = env and f = f and w = w and c = c])
    case (conf_error e)
    from forward_loop_conf_error [OF this] Cons.prems(3,4) show ?thesis by (simp add: new_events_def)
  next
    case (New_error conf0 err0)
    let ?w1 = "w\<lparr>trace := trace w @ [EvNew c conf0 (Inl err0)]\<rparr>"
    have reg: "tracker ?w1 id' = Some a" using Cons.prems(1) by simp
    from forward_loop_New_error [OF New_error refl] Cons.prems(3)
    have res: "exit = Returned" "w' = snd (closeByConnectionID env id' ?w1)"
      "diags' = Append (AddError diags ''Port Forwarding Error''
                (''Unable to create port forwarding, got error: '' @ err0))
             (fst (closeByConnectionID env id' ?w1))"
      by simp_all
    have ne: "new_events w w' = [] @ [EvNew c conf0 (Inl err0)]
                @ map (\<lambda>l. EvListenerClose (lis_handle l)) (listeners (heap w a) @ created_listeners [])
                @ [EvConnClose c, EvRemove id']"
      unfolding res(2) using Cons.prems(2)
      by (simp add: new_events_def closeByConnectionID_world [OF reg])
    with Cons.prems(4) have same: "c' = c" "conf = conf0" "err = err0"
      by auto
    have tr: "tracker w' = (tracker w)(id' := None)"
      unfolding res(2) by (simp add: closeByConnectionID_world [OF reg])
    have dg: "ErrorDiagnostic ''Port Forwarding Error''
              (''Unable to create port forwarding, got error: '' @ err) \<in> set diags'"
      unfolding res(3) same by (simp only: set_Append set_AddError) simp
    have "\<forall>ev\<in>set ([] :: Event list). \<exists>conf' l. ev = EvNew c conf' (Inr l)" by simp
    with res(1) same tr dg ne show ?thesis by blast
  next
    case (not_TCP conf0)
    let ?l = "\<lparr>lis_handle = next_handle w, lis_addr = OtherAddr\<rparr>"
    let ?w2 = "w\<lparr>trace := trace w @ [EvNew c conf0 (Inr ?l)], next_handle := Suc (next_handle w),
          heap := (heap w)(a := (heap w a)\<lparr>listeners := listeners (heap w a) @ [?l]\<rparr>)\<rparr>"
    have reg: "tracker ?w2 id' = Some a" using Cons.prems(1) by simp
    from forward_loop_not_TCP [OF not_TCP refl refl] Cons.prems(3)
    have w': "w' = snd (closeByConnectionID env id' ?w2)" by simp
    have "new_events w w' = EvNew c conf0 (Inr ?l) # new_events ?w2 w'"
      unfolding w' by (simp add: new_events_def closeByConnectionID_world [OF reg])
    with Cons.prems(4) show ?thesis
      unfolding w' closeByConnectionID_new_events [OF reg]
      by (auto split: option.splits)
  next
    case (bound conf0 port)
    let ?l = "\<lparr>lis_handle = next_handle w, lis_addr = TCPAddr port\<rparr>"
    let ?w2 = "w\<lparr>trace := trace w @ [EvNew c conf0 (Inr ?l)], next_handle := Suc (next_handle w),
          heap := (heap w)(a := (heap w a)\<lparr>listeners := listeners (heap w a) @ [?l]\<rparr>)\<rparr>"
    have reg: "tracker ?w2 id' = Some a" using Cons.prems(1) by simp
    have con: "conn (heap ?w2 a) = Some c" using Cons.prems(2) by simp
    obtain e r d v where rec: "forward_loop env id' a c rest diags ?w2 = (e, r, d, v)"
      by (cases "forward_loop env id' a c rest diags ?w2") auto
    from forward_loop_next [OF bound refl refl rec] Cons.prems(3)
    have eq: "e = exit" "d = diags'" "v = w'" by simp_all
    note rec' = rec [unfolded eq]
    from forward_loop_frame [OF reg rec'] obtain evs0 where "trace w' = trace ?w2 @ evs0"
      by blast
    then have ne: "new_events w w' = EvNew c conf0 (Inr ?l) # new_events ?w2 w'"
      by (simp add: new_events_def)
    with Cons.prems(4) have "EvNew c' conf (Inl err) \<in> set (new_events ?w2 w')"
      by auto
    from Cons.IH [OF reg con rec' this] obtain evs where
      IH: "exit = Returned" "c' = c" "tracker w' = (tracker ?w2)(id' := None)"
          "ErrorDiagnostic ''Port Forwarding Error''
              (''Unable to create port forwarding, got error: '' @ err) \<in> set diags'"
          "new_events ?w2 w' =
                evs @ [EvNew c conf (Inl err)]
                  @ map (\<lambda>l. EvListenerClose (lis_handle l)) (listeners (heap ?w2 a) @ created_listeners evs)
                  @ [EvConnClose c, EvRemove id']"
          "\<forall>ev\<in>set evs. \<exists>conf' l. ev = EvNew c conf' (Inr l)"
      by blast
    let ?evs = "EvNew c conf0 (Inr ?l) # evs"
    have 1: "tracker w' = (tracker w)(id' := None)" using IH(3) by simp
    have 2: "new_events w w' =
                ?evs @ [EvNew c conf (Inl err)]
                  @ map (\<lambda>l. EvListenerClose (lis_handle l)) (listeners (heap w a) @ created_listeners ?evs)
                  @ [EvConnClose c, EvRemove id']"
      unfolding ne IH(5) by simp
    have 3: "\<forall>ev\<in>set ?evs. \<exists>conf' l. ev = EvNew c conf' (Inr l)"
      using IH(6) by simp
    from IH(1,2,4) 1 2 3 show ?thesis by blast
  qed
qed

subsection \<open>\<^verbatim>\<open>Open\<close>, case by case\<close>

lemma Open_start:
  "(case randSeq env 8 w of (id', w1) \<Rightarrow> (case new_TunnelInfo w1 of (tunnelInfo, w2) \<Rightarrow> F id' tunnelInfo w2))
     = F (fst (randSeq env 8 w)) (next_addr w) (allocated w)"
proof -
  obtain i v where r: "randSeq env 8 w = (i, v)"
    by (cases "randSeq env 8 w")
  have v: "v = w\<lparr>rand_pos := rand_pos w + 8\<rparr>"
    using randSeq_world [of env 8 w] r by simp
  show ?thesis
    by (simp add: r v new_TunnelInfo_def allocated_def)
qed

lemma tracker_Add_allocated:
  "tracker_Add (fst (randSeq env 8 w)) (next_addr w) (allocated w) = registered env w"
  by (simp add: tracker_Add_def registered_def allocated_def)

text \<open>
The six ways \<^verbatim>\<open>Open\<close> can go, each with the state it leaves.
\<close>

lemma Open_cases:
  obtains
    (config_error) "HasError (Append [] (fst (Config_Get req)))"
      "snd (Open env req w) = w"
      "resp_Diagnostics (fst (Open env req w)) = Append [] (fst (Config_Get req))"
  | (marshal_error)
      "snd (Open env req w) = allocated w"
      "HasError (resp_Diagnostics (fst (Open env req w)))"
  | (key_error) err where
      "ssh_ParsePrivateKey env (ValueString (PrivateKey (Auth (snd (Config_Get req))))) = Inl err"
      "snd (Open env req w) = registered env w"
      "HasError (resp_Diagnostics (fst (Open env req w)))"
  | (dial_error) signer err where
      "ssh_Dial env (next_handle w) (hostAddr (Host (snd (Config_Get req))) (Port (snd (Config_Get req))))
         (ValueString (User (snd (Config_Get req)))) signer = Some err"
      "snd (Open env req w) =
         (registered env w)\<lparr>trace := trace (registered env w)
            @ [EvDial (hostAddr (Host (snd (Config_Get req))) (Port (snd (Config_Get req))))
                 (ValueString (User (snd (Config_Get req)))) (Inl err)]\<rparr>"
      "HasError (resp_Diagnostics (fst (Open env req w)))"
  | (loop_returned) out diags' where
      "forward_loop env (fst (randSeq env 8 w)) (next_addr w) (next_handle w)
         (LocalPortForwardings (snd (Config_Get req))) (Append [] (fst (Config_Get req)))
         (connected env (snd (Config_Get req)) w) = (Returned, out, diags', snd (Open env req w))"
      "resp_Diagnostics (fst (Open env req w)) = diags'"
      "resp_Result (fst (Open env req w)) = None"
  | (loop_completed) out diags' where
      "\<not> HasError (Append [] (fst (Config_Get req)))"
      "forward_loop env (fst (randSeq env 8 w)) (next_addr w) (next_handle w)
         (LocalPortForwardings (snd (Config_Get req))) (Append [] (fst (Config_Get req)))
         (connected env (snd (Config_Get req)) w) = (Completed, out, diags', snd (Open env req w))"
      "resp_Diagnostics (fst (Open env req w)) =
         Append diags' (Result_Set env ((snd (Config_Get req))\<lparr>LocalPortForwardings := out\<rparr>))"
      "resp_Result (fst (Open env req w)) =
         (if HasError (Result_Set env ((snd (Config_Get req))\<lparr>LocalPortForwardings := out\<rparr>)) then None
          else Some ((snd (Config_Get req))\<lparr>LocalPortForwardings := out\<rparr>))"
proof (cases "HasError (Append [] (fst (Config_Get req)))")
  case True
  then show ?thesis by (intro config_error) (simp_all add: Open_def Let_def)
next
  case noerr: False
  let ?data = "snd (Config_Get req)"
  let ?id = "fst (randSeq env 8 w)"
  show ?thesis
  proof (cases "json_Marshal env \<lparr>ID = ?id\<rparr>")
    case (Inl err)
    with noerr show ?thesis
      by (intro marshal_error) (simp_all add: Open_def Let_def Open_start HasError_AddError)
  next
    case (Inr b)
    note marshal = this
    let ?resp = "\<lparr>resp_Diagnostics = Append [] (fst (Config_Get req)),
                  resp_Private = [connectionPrivateDataKey \<mapsto> b], resp_Result = None\<rparr>"
    have open_eq: "Open env req w = Open_connect env ?data ?id (next_addr w) ?resp (registered env w)"
      using noerr marshal by (simp add: Open_def Let_def Open_start tracker_Add_allocated)
    show ?thesis
    proof (cases "ssh_ParsePrivateKey env (ValueString (PrivateKey (Auth ?data)))")
      case (Inl err)
      then show ?thesis
        by (intro key_error [of err]) (simp_all add: open_eq Open_connect_def HasError_AddError)
    next
      case (Inr signer)
      note key = this
      have nh: "next_handle (registered env w) = next_handle w"
        by (simp add: registered_def allocated_def)
      show ?thesis
      proof (cases "ssh_Dial env (next_handle w) (hostAddr (Host ?data) (Port ?data))
                      (ValueString (User ?data)) signer")
        case (Some err)
        then show ?thesis using key
          by (intro dial_error [of signer err])
             (simp_all add: open_eq Open_connect_def Let_def nh HasError_AddError)
      next
        case None
        let ?w4 = "connected env ?data w"
        have w4: "(registered env w)
                   \<lparr>trace := trace (registered env w) @ [EvDial (hostAddr (Host ?data) (Port ?data))
                       (ValueString (User ?data)) (Inr (next_handle (registered env w)))],
                    next_handle := Suc (next_handle (registered env w)),
                    heap := (heap (registered env w))(next_addr w :=
                       (heap (registered env w) (next_addr w))\<lparr>conn := Some (next_handle (registered env w))\<rparr>)\<rparr>
                  = ?w4"
          by (simp add: connected_def registered_def allocated_def)
        obtain exit out diags' w' where
          loop: "forward_loop env ?id (next_addr w) (next_handle w) (LocalPortForwardings ?data)
                   (Append [] (fst (Config_Get req))) ?w4 = (exit, out, diags', w')"
          by (cases "forward_loop env ?id (next_addr w) (next_handle w) (LocalPortForwardings ?data)
                   (Append [] (fst (Config_Get req))) ?w4") auto
        have open2: "Open env req w =
            (case (exit, out, diags', w') of
               (Returned, fwds, diags, w3) \<Rightarrow> (?resp\<lparr>resp_Diagnostics := diags\<rparr>, w3)
             | (Completed, fwds, diags, w3) \<Rightarrow>
                 (?resp\<lparr>resp_Diagnostics := Append diags (Result_Set env (?data\<lparr>LocalPortForwardings := fwds\<rparr>)),
                         resp_Result := (if HasError (Result_Set env (?data\<lparr>LocalPortForwardings := fwds\<rparr>))
                                         then None else Some (?data\<lparr>LocalPortForwardings := fwds\<rparr>))\<rparr>, w3))"
          using key None loop
          by (cases exit) (simp_all add: open_eq Open_connect_def Let_def nh w4 [unfolded nh])
        show ?thesis
        proof (cases exit)
          case Completed
          with open2 loop noerr show ?thesis
            by (intro loop_completed [of out diags']) simp_all
        next
          case Returned
          with open2 loop show ?thesis
            by (intro loop_returned [of out diags']) simp_all
        qed
      qed
    qed
  qed
qed

lemma connected_facts:
  "tracker (connected env data w) (fst (randSeq env 8 w)) = Some (next_addr w)"
  "heap (connected env data w) = (heap w)(next_addr w := \<lparr>conn = Some (next_handle w), listeners = []\<rparr>)"
  "trace (connected env data w) =
     trace w @ [EvAdd (fst (randSeq env 8 w)) (next_addr w),
                EvDial (hostAddr (Host data) (Port data)) (ValueString (User data)) (Inr (next_handle w))]"
  "tracker (connected env data w) = (tracker w)(fst (randSeq env 8 w) \<mapsto> next_addr w)"
  "next_handle (connected env data w) = Suc (next_handle w)"
  by (simp_all add: connected_def registered_def allocated_def)

lemma registered_facts:
  "tracker (registered env w) = (tracker w)(fst (randSeq env 8 w) \<mapsto> next_addr w)"
  "heap (registered env w) = (heap w)(next_addr w := \<lparr>conn = None, listeners = []\<rparr>)"
  "trace (registered env w) = trace w @ [EvAdd (fst (randSeq env 8 w)) (next_addr w)]"
  by (simp_all add: registered_def allocated_def)

lemma allocated_facts:
  "tracker (allocated w) = tracker w"
  "heap (allocated w) = (heap w)(next_addr w := \<lparr>conn = None, listeners = []\<rparr>)"
  "trace (allocated w) = trace w"
  by (simp_all add: allocated_def)

lemma forwarding_conf_RemoteAddr:
  "forwarding_conf env f = Inr conf \<Longrightarrow> cfg_RemoteAddr conf = hostAddr (RemoteHost f) (RemotePort f)"
  by (auto simp: forwarding_conf_def Let_def split: if_splits sum.splits)

text \<open>
The events of one \<^verbatim>\<open>Open\<close>.
\<close>

lemma Open_events:
  assumes "ev \<in> set (new_events w (snd (Open env req w)))"
  shows "ev = EvAdd (fst (randSeq env 8 w)) (next_addr w)
         \<or> (\<exists>r. ev = EvDial (hostAddr (Host (snd (Config_Get req))) (Port (snd (Config_Get req))))
                        (ValueString (User (snd (Config_Get req)))) r)
         \<or> (\<exists>conf r f. ev = EvNew (next_handle w) conf r
                \<and> f \<in> set (LocalPortForwardings (snd (Config_Get req)))
                \<and> forwarding_conf env f = Inr conf)
         \<or> (\<exists>h. ev = EvListenerClose h) \<or> (\<exists>h. ev = EvConnClose h)
         \<or> ev = EvRemove (fst (randSeq env 8 w))"
proof (cases rule: Open_cases [where env = env and req = req and w = w])
  case config_error
  with assms show ?thesis by (simp add: new_events_self)
next
  case marshal_error
  with assms show ?thesis by (simp add: new_events_def allocated_facts)
next
  case (key_error err)
  with assms show ?thesis by (simp add: new_events_def registered_facts)
next
  case (dial_error signer err)
  with assms show ?thesis by (auto simp: new_events_def registered_facts)
next
  case (loop_returned out diags')
  let ?w4 = "connected env (snd (Config_Get req)) w"
  from forward_loop_frame [OF connected_facts(1) loop_returned(1)]
  obtain evs where "trace (snd (Open env req w)) = trace ?w4 @ evs" by blast
  then have "new_events w (snd (Open env req w)) =
      [EvAdd (fst (randSeq env 8 w)) (next_addr w),
       EvDial (hostAddr (Host (snd (Config_Get req))) (Port (snd (Config_Get req))))
         (ValueString (User (snd (Config_Get req)))) (Inr (next_handle w))]
      @ new_events ?w4 (snd (Open env req w))"
    by (simp add: new_events_def connected_facts)
  with assms consider "ev = EvAdd (fst (randSeq env 8 w)) (next_addr w)"
    | "ev = EvDial (hostAddr (Host (snd (Config_Get req))) (Port (snd (Config_Get req))))
         (ValueString (User (snd (Config_Get req)))) (Inr (next_handle w))"
    | "ev \<in> set (new_events ?w4 (snd (Open env req w)))"
    by auto
  then show ?thesis
  proof cases
    case 3
    from forward_loop_events [OF connected_facts(1) loop_returned(1) this] show ?thesis by blast
  qed blast+
next
  case (loop_completed out diags')
  let ?w4 = "connected env (snd (Config_Get req)) w"
  from forward_loop_frame [OF connected_facts(1) loop_completed(2)]
  obtain evs where "trace (snd (Open env req w)) = trace ?w4 @ evs" by blast
  then have "new_events w (snd (Open env req w)) =
      [EvAdd (fst (randSeq env 8 w)) (next_addr w),
       EvDial (hostAddr (Host (snd (Config_Get req))) (Port (snd (Config_Get req))))
         (ValueString (User (snd (Config_Get req)))) (Inr (next_handle w))]
      @ new_events ?w4 (snd (Open env req w))"
    by (simp add: new_events_def connected_facts)
  with assms consider "ev = EvAdd (fst (randSeq env 8 w)) (next_addr w)"
    | "ev = EvDial (hostAddr (Host (snd (Config_Get req))) (Port (snd (Config_Get req))))
         (ValueString (User (snd (Config_Get req)))) (Inr (next_handle w))"
    | "ev \<in> set (new_events ?w4 (snd (Open env req w)))"
    by auto
  then show ?thesis
  proof cases
    case 3
    from forward_loop_events [OF connected_facts(1) loop_completed(2) this] show ?thesis by blast
  qed blast+
qed



text \<open>
  Claim C10. \<^verbatim>\<open>hostAddr\<close> of a host \<open>h\<close> and a port \<open>p\<close> is \<open>h\<close>, a colon, and \<open>p\<close> in
  decimal (a minus sign when negative, then digits that denote the absolute value),
  with nothing added around \<open>h\<close>. Every address \<^verbatim>\<open>Open\<close> dials and the remote address
  of every listener it constructs are built this way, from the host and port of the
  configuration and from the remote host and port of a forwarding.
\<close>

theorem hostAddr_dial_addresses:
  "hostAddr (Known h) (Known p) = h @ '':'' @ fmt_d (sint p)
   \<and> fmt_d (sint p) = (if sint p < 0 then ''-'' else []) @ dec_nat (nat \<bar>sint p\<bar>)
   \<and> decimal_value (dec_nat (nat \<bar>sint p\<bar>)) = nat \<bar>sint p\<bar>
   \<and> (EvDial addr user r \<in> set (new_events w (snd (Open env req w))) \<longrightarrow>
        addr = ValueString (Host (snd (Config_Get req))) @ '':''
                 @ fmt_d (sint (ValueInt32 (Port (snd (Config_Get req))))))
   \<and> (EvNew c conf r' \<in> set (new_events w (snd (Open env req w))) \<longrightarrow>
        (\<exists>f\<in>set (LocalPortForwardings (snd (Config_Get req))).
           cfg_RemoteAddr conf = ValueString (RemoteHost f) @ '':''
                                   @ fmt_d (sint (ValueInt32 (RemotePort f)))))"
proof (intro conjI impI)
  show "hostAddr (Known h) (Known p) = h @ '':'' @ fmt_d (sint p)"
    by (simp add: hostAddr_def ValueString_def ValueInt32_def)
next
  show "fmt_d (sint p) = (if sint p < 0 then ''-'' else []) @ dec_nat (nat \<bar>sint p\<bar>)"
    by (simp add: fmt_d_def)
next
  show "decimal_value (dec_nat (nat \<bar>sint p\<bar>)) = nat \<bar>sint p\<bar>"
    by (rule dec_nat_value)
next
  assume "EvDial addr user r \<in> set (new_events w (snd (Open env req w)))"
  from Open_events [OF this]
  have "addr = hostAddr (Host (snd (Config_Get req))) (Port (snd (Config_Get req)))" by auto
  then show "addr = ValueString (Host (snd (Config_Get req))) @ '':''
                 @ fmt_d (sint (ValueInt32 (Port (snd (Config_Get req)))))"
    by (simp only: hostAddr_def)
next
  assume "EvNew c conf r' \<in> set (new_events w (snd (Open env req w)))"
  from Open_events [OF this] obtain f where
    f: "f \<in> set (LocalPortForwardings (snd (Config_Get req)))" "forwarding_conf env f = Inr conf"
    by auto
  from forwarding_conf_RemoteAddr [OF f(2)]
  have "cfg_RemoteAddr conf = ValueString (RemoteHost f) @ '':''
                                   @ fmt_d (sint (ValueInt32 (RemotePort f)))"
    by (simp only: hostAddr_def)
  with f(1) show "\<exists>f\<in>set (LocalPortForwardings (snd (Config_Get req))).
           cfg_RemoteAddr conf = ValueString (RemoteHost f) @ '':''
                                   @ fmt_d (sint (ValueInt32 (RemotePort f)))"
    by blast
qed

theorem hostAddr_dial_addresses_witness:
  "hostAddr (Known ''::1'') (Known 22) = ''::1:22''
   \<and> EvDial ''::1:22'' ''deploy'' (Inr 0)
       \<in> set (new_events World0 (snd (Open env_ok two_forwardings World0)))
   \<and> EvNew 0 \<lparr>cfg_LocalPort = None, cfg_RemoteAddr = ''2001:db8::7:5432'',
               cfg_RetryDelay = 100000000, cfg_RetryAttempts = 2\<rparr>
        (Inr \<lparr>lis_handle = 1, lis_addr = TCPAddr 40001\<rparr>)
       \<in> set (new_events World0 (snd (Open env_ok two_forwardings World0)))
   \<and> ''::1:22'' = ValueString (Host (snd (Config_Get two_forwardings))) @ '':''
                 @ fmt_d (sint (ValueInt32 (Port (snd (Config_Get two_forwardings)))))
   \<and> (\<exists>f\<in>set (LocalPortForwardings (snd (Config_Get two_forwardings))).
        ''2001:db8::7:5432'' = ValueString (RemoteHost f) @ '':''
                                 @ fmt_d (sint (ValueInt32 (RemotePort f))))"
proof -
  let ?conf = "\<lparr>cfg_LocalPort = None, cfg_RemoteAddr = ''2001:db8::7:5432'',
               cfg_RetryDelay = 100000000, cfg_RetryAttempts = 2\<rparr>"
  let ?l = "\<lparr>lis_handle = 1, lis_addr = TCPAddr 40001\<rparr>"
  have d: "EvDial ''::1:22'' ''deploy'' (Inr 0)
       \<in> set (new_events World0 (snd (Open env_ok two_forwardings World0)))"
    by (simp add: new_events_def two_forwardings_run(1)) (simp add: World0_def)
  have n: "EvNew 0 ?conf (Inr ?l)
       \<in> set (new_events World0 (snd (Open env_ok two_forwardings World0)))"
    by (simp add: new_events_def two_forwardings_run(1)) (simp add: World0_def)
  have e: "hostAddr (Known ''::1'') (Known 22) = ''::1:22''"
    by (simp add: hostAddr_def ValueString_def ValueInt32_def fmt_d_def dec_nat.simps digit_char_def)
  note T = hostAddr_dial_addresses [where h = "''::1''" and p = 22 and addr = "''::1:22''"
      and user = "''deploy''" and r = "Inr 0" and w = World0 and env = env_ok
      and req = two_forwardings and c = 0 and conf = ?conf and r' = "Inr ?l"]
  from T d have a: "''::1:22'' = ValueString (Host (snd (Config_Get two_forwardings))) @ '':''
                 @ fmt_d (sint (ValueInt32 (Port (snd (Config_Get two_forwardings)))))"
    by blast
  from T n have b: "\<exists>f\<in>set (LocalPortForwardings (snd (Config_Get two_forwardings))).
        cfg_RemoteAddr ?conf = ValueString (RemoteHost f) @ '':''
                                 @ fmt_d (sint (ValueInt32 (RemotePort f)))"
    by blast
  then have b': "\<exists>f\<in>set (LocalPortForwardings (snd (Config_Get two_forwardings))).
        ''2001:db8::7:5432'' = ValueString (RemoteHost f) @ '':''
                                 @ fmt_d (sint (ValueInt32 (RemotePort f)))"
    by simp
  from e d n a b' show ?thesis by blast
qed

text \<open>
  Claim C4. When the construction of a listener fails during \<^verbatim>\<open>Open\<close>, the events of
  the call end with the failed construction followed at once by the teardown: the close
  of every listener constructed before, the close of the client, the removal of the
  identifier. The identifier is then absent from the tracker, and the response carries
  the error of the construction and no result.
\<close>

theorem Open_listener_failure_teardown:
  assumes "EvNew c conf (Inl err) \<in> set (new_events w (snd (Open env req w)))"
  shows "tracker (snd (Open env req w)) (fst (randSeq env 8 w)) = None
         \<and> HasError (resp_Diagnostics (fst (Open env req w)))
         \<and> ErrorDiagnostic ''Port Forwarding Error''
              (''Unable to create port forwarding, got error: '' @ err)
              \<in> set (resp_Diagnostics (fst (Open env req w)))
         \<and> resp_Result (fst (Open env req w)) = None
         \<and> (\<exists>evs. new_events w (snd (Open env req w)) =
                [EvAdd (fst (randSeq env 8 w)) (next_addr w),
                 EvDial (hostAddr (Host (snd (Config_Get req))) (Port (snd (Config_Get req))))
                   (ValueString (User (snd (Config_Get req)))) (Inr c)]
                @ evs @ [EvNew c conf (Inl err)]
                @ map (\<lambda>l. EvListenerClose (lis_handle l)) (created_listeners evs)
                @ [EvConnClose c, EvRemove (fst (randSeq env 8 w))]
              \<and> (\<forall>ev\<in>set evs. \<exists>conf' l. ev = EvNew c conf' (Inr l)))"
proof (cases rule: Open_cases [where env = env and req = req and w = w])
  case config_error
  with assms show ?thesis by (simp add: new_events_self)
next
  case marshal_error
  with assms show ?thesis by (simp add: new_events_def allocated_facts)
next
  case (key_error e)
  with assms show ?thesis by (simp add: new_events_def registered_facts)
next
  case (dial_error signer e)
  with assms show ?thesis by (simp add: new_events_def registered_facts)
next
  case (loop_returned out diags')
  let ?data = "snd (Config_Get req)"
  let ?w4 = "connected env ?data w"
  let ?w' = "snd (Open env req w)"
  let ?id = "fst (randSeq env 8 w)"
  have con: "conn (heap ?w4 (next_addr w)) = Some (next_handle w)"
    and lis: "listeners (heap ?w4 (next_addr w)) = []"
    by (simp_all add: connected_facts)
  from forward_loop_frame [OF connected_facts(1) loop_returned(1)]
  obtain evs0 where "trace ?w' = trace ?w4 @ evs0" by blast
  then have ne: "new_events w ?w' =
      [EvAdd ?id (next_addr w),
       EvDial (hostAddr (Host ?data) (Port ?data)) (ValueString (User ?data)) (Inr (next_handle w))]
      @ new_events ?w4 ?w'"
    by (simp add: new_events_def connected_facts)
  with assms have "EvNew c conf (Inl err) \<in> set (new_events ?w4 ?w')"
    by simp
  from forward_loop_New_failure [OF connected_facts(1) con loop_returned(1) this]
  obtain evs where
    L: "c = next_handle w" "tracker ?w' = (tracker ?w4)(?id := None)"
       "ErrorDiagnostic ''Port Forwarding Error''
              (''Unable to create port forwarding, got error: '' @ err) \<in> set diags'"
       "new_events ?w4 ?w' =
                evs @ [EvNew (next_handle w) conf (Inl err)]
                  @ map (\<lambda>l. EvListenerClose (lis_handle l))
                      (listeners (heap ?w4 (next_addr w)) @ created_listeners evs)
                  @ [EvConnClose (next_handle w), EvRemove ?id]"
       "\<forall>ev\<in>set evs. \<exists>conf' l. ev = EvNew (next_handle w) conf' (Inr l)"
    by blast
  have 1: "tracker ?w' ?id = None" using L(2) by simp
  have 2: "HasError (resp_Diagnostics (fst (Open env req w)))"
    using forward_loop_Returned_HasError [OF loop_returned(1)] loop_returned(2) by simp
  have 3: "ErrorDiagnostic ''Port Forwarding Error''
              (''Unable to create port forwarding, got error: '' @ err)
              \<in> set (resp_Diagnostics (fst (Open env req w)))"
    using L(3) loop_returned(2) by simp
  have 4: "new_events w ?w' =
                [EvAdd ?id (next_addr w),
                 EvDial (hostAddr (Host ?data) (Port ?data)) (ValueString (User ?data)) (Inr c)]
                @ evs @ [EvNew c conf (Inl err)]
                @ map (\<lambda>l. EvListenerClose (lis_handle l)) (created_listeners evs)
                @ [EvConnClose c, EvRemove ?id]"
    unfolding ne L(4) lis L(1) by simp
  have 5: "\<forall>ev\<in>set evs. \<exists>conf' l. ev = EvNew c conf' (Inr l)"
    using L(5) L(1) by simp
  from 1 2 3 4 5 loop_returned(3) show ?thesis by blast
next
  case (loop_completed out diags')
  let ?data = "snd (Config_Get req)"
  let ?w4 = "connected env ?data w"
  let ?w' = "snd (Open env req w)"
  have con: "conn (heap ?w4 (next_addr w)) = Some (next_handle w)"
    by (simp add: connected_facts)
  from forward_loop_frame [OF connected_facts(1) loop_completed(2)]
  obtain evs0 where "trace ?w' = trace ?w4 @ evs0" by blast
  then have "new_events w ?w' =
      [EvAdd (fst (randSeq env 8 w)) (next_addr w),
       EvDial (hostAddr (Host ?data) (Port ?data)) (ValueString (User ?data)) (Inr (next_handle w))]
      @ new_events ?w4 ?w'"
    by (simp add: new_events_def connected_facts)
  with assms have "EvNew c conf (Inl err) \<in> set (new_events ?w4 ?w')"
    by simp
  from forward_loop_New_failure [OF connected_facts(1) con loop_completed(2) this]
  show ?thesis by simp
qed

theorem Open_listener_failure_teardown_witness:
  "EvNew 0 \<lparr>cfg_LocalPort = Some 80, cfg_RemoteAddr = ''web:80'',
             cfg_RetryDelay = 0, cfg_RetryAttempts = 2\<rparr>
      (Inl ''listen tcp :80: bind: permission denied'')
     \<in> set (new_events World0 (snd (Open env_ok port_in_use World0)))
   \<and> tracker (snd (Open env_ok port_in_use World0)) ''dkryFMTa'' = None
   \<and> HasError (resp_Diagnostics (fst (Open env_ok port_in_use World0)))
   \<and> resp_Result (fst (Open env_ok port_in_use World0)) = None
   \<and> drop 3 (new_events World0 (snd (Open env_ok port_in_use World0))) =
       [EvNew 0 \<lparr>cfg_LocalPort = Some 80, cfg_RemoteAddr = ''web:80'',
                 cfg_RetryDelay = 0, cfg_RetryAttempts = 2\<rparr>
          (Inl ''listen tcp :80: bind: permission denied''),
        EvListenerClose 1, EvConnClose 0, EvRemove ''dkryFMTa'']"
proof -
  let ?conf = "\<lparr>cfg_LocalPort = Some 80, cfg_RemoteAddr = ''web:80'',
             cfg_RetryDelay = 0, cfg_RetryAttempts = 2\<rparr>"
  have ne: "new_events World0 (snd (Open env_ok port_in_use World0)) =
              trace (snd (Open env_ok port_in_use World0))"
    by (simp add: new_events_def World0_def)
  have h: "EvNew 0 ?conf (Inl ''listen tcp :80: bind: permission denied'')
     \<in> set (new_events World0 (snd (Open env_ok port_in_use World0)))"
    by (simp add: ne port_in_use_run(1))
  have i: "fst (randSeq env_ok 8 World0) = ''dkryFMTa''"
    by (simp add: randSeq_env_ok)
  have "tracker (snd (Open env_ok port_in_use World0)) ''dkryFMTa'' = None"
    "HasError (resp_Diagnostics (fst (Open env_ok port_in_use World0)))"
    "resp_Result (fst (Open env_ok port_in_use World0)) = None"
    using Open_listener_failure_teardown [OF h] by (simp_all add: i)
  moreover have "drop 3 (new_events World0 (snd (Open env_ok port_in_use World0))) =
       [EvNew 0 ?conf (Inl ''listen tcp :80: bind: permission denied''),
        EvListenerClose 1, EvConnClose 0, EvRemove ''dkryFMTa'']"
    by (simp add: ne port_in_use_run(1))
  ultimately show ?thesis using h by blast
qed

text \<open>
  Claim C7. When \<^verbatim>\<open>Open\<close> returns without an error, its result is the configuration with
  the local port of each forwarding replaced, in order, by the TCP port of the address
  of the listener constructed for that forwarding (the conversion \<^verbatim>\<open>int32(tcpAddr.Port)\<close>
  keeps the port whenever it fits 32 bits, so every TCP port). The record registered
  under the new identifier holds exactly these listeners, one per forwarding.
\<close>

theorem Open_reports_bound_ports:
  assumes "\<not> HasError (resp_Diagnostics (fst (Open env req w)))"
  shows "\<exists>out. resp_Result (fst (Open env req w))
                 = Some ((snd (Config_Get req))\<lparr>LocalPortForwardings := out\<rparr>)
           \<and> tracker (snd (Open env req w)) (fst (randSeq env 8 w)) = Some (next_addr w)
           \<and> conn (heap (snd (Open env req w)) (next_addr w)) = Some (next_handle w)
           \<and> length out = length (LocalPortForwardings (snd (Config_Get req)))
           \<and> length (listeners (heap (snd (Open env req w)) (next_addr w)))
               = length (LocalPortForwardings (snd (Config_Get req)))
           \<and> (\<forall>i<length (LocalPortForwardings (snd (Config_Get req))).
                \<exists>port conf.
                  forwarding_conf env (LocalPortForwardings (snd (Config_Get req)) ! i) = Inr conf
                  \<and> EvNew (next_handle w) conf
                       (Inr (listeners (heap (snd (Open env req w)) (next_addr w)) ! i))
                      \<in> set (new_events w (snd (Open env req w)))
                  \<and> lis_addr (listeners (heap (snd (Open env req w)) (next_addr w)) ! i) = TCPAddr port
                  \<and> out ! i = (LocalPortForwardings (snd (Config_Get req)) ! i)
                                \<lparr>LocalPort := Known (word_of_int port)\<rparr>
                  \<and> (- (2 ^ 31) \<le> port \<and> port < 2 ^ 31 \<longrightarrow>
                       sint (ValueInt32 (LocalPort (out ! i))) = port))"
proof (cases rule: Open_cases [where env = env and req = req and w = w])
  case config_error
  with assms show ?thesis by simp
next
  case marshal_error
  with assms show ?thesis by simp
next
  case (key_error e)
  with assms show ?thesis by simp
next
  case (dial_error signer e)
  with assms show ?thesis by simp
next
  case (loop_returned out diags')
  with assms forward_loop_Returned_HasError [OF loop_returned(1)] show ?thesis by simp
next
  case (loop_completed out diags')
  let ?data = "snd (Config_Get req)"
  let ?fwds = "LocalPortForwardings ?data"
  let ?w4 = "connected env ?data w"
  let ?w' = "snd (Open env req w)"
  let ?a = "next_addr w"
  let ?c = "next_handle w"
  from assms loop_completed(3)
  have ok: "\<not> HasError (Result_Set env (?data\<lparr>LocalPortForwardings := out\<rparr>))"
    by (simp add: HasError_Append)
  with loop_completed(4)
  have res: "resp_Result (fst (Open env req w)) = Some (?data\<lparr>LocalPortForwardings := out\<rparr>)"
    by simp
  from forward_loop_Completed [OF loop_completed(2)] obtain ls confs where
    C: "map (forwarding_conf env) ?fwds = map Inr confs"
       "length ls = length ?fwds" "length out = length ?fwds"
       "?w' = ?w4\<lparr>trace := trace ?w4 @ map2 (\<lambda>conf l. EvNew ?c conf (Inr l)) confs ls,
                   next_handle := next_handle ?w4 + length ?fwds,
                   heap := (heap ?w4)(?a := (heap ?w4 ?a)\<lparr>listeners := listeners (heap ?w4 ?a) @ ls\<rparr>)\<rparr>"
       "\<forall>i<length ?fwds. \<exists>port. lis_addr (ls ! i) = TCPAddr port
            \<and> out ! i = (?fwds ! i)\<lparr>LocalPort := NewInt32Value (word_of_int port)\<rparr>"
    by blast
  have lenc: "length confs = length ?fwds"
    using C(1) by (metis length_map)
  have tr: "tracker ?w' (fst (randSeq env 8 w)) = Some ?a"
    by (subst C(4)) (simp add: connected_facts)
  have hp: "heap ?w' ?a = \<lparr>conn = Some ?c, listeners = ls\<rparr>"
    by (subst C(4)) (simp add: connected_facts)
  have ne: "new_events w ?w' =
      [EvAdd (fst (randSeq env 8 w)) ?a,
       EvDial (hostAddr (Host ?data) (Port ?data)) (ValueString (User ?data)) (Inr ?c)]
      @ map2 (\<lambda>conf l. EvNew ?c conf (Inr l)) confs ls"
    by (subst C(4)) (simp add: new_events_def connected_facts)
  have each: "\<exists>port conf.
                  forwarding_conf env (?fwds ! i) = Inr conf
                  \<and> EvNew ?c conf (Inr (listeners (heap ?w' ?a) ! i)) \<in> set (new_events w ?w')
                  \<and> lis_addr (listeners (heap ?w' ?a) ! i) = TCPAddr port
                  \<and> out ! i = (?fwds ! i)\<lparr>LocalPort := Known (word_of_int port)\<rparr>
                  \<and> (- (2 ^ 31) \<le> port \<and> port < 2 ^ 31 \<longrightarrow>
                       sint (ValueInt32 (LocalPort (out ! i))) = port)"
    if i: "i < length ?fwds" for i
  proof -
    from C(5) i obtain port where
      p: "lis_addr (ls ! i) = TCPAddr port"
         "out ! i = (?fwds ! i)\<lparr>LocalPort := NewInt32Value (word_of_int port)\<rparr>"
      by blast
    have "map (forwarding_conf env) ?fwds ! i = map Inr confs ! i"
      by (simp only: C(1))
    then have cf: "forwarding_conf env (?fwds ! i) = Inr (confs ! i)"
      using i lenc by simp
    have "map2 (\<lambda>conf l. EvNew ?c conf (Inr l)) confs ls ! i = EvNew ?c (confs ! i) (Inr (ls ! i))"
      using i lenc C(2) by simp
    moreover have "i < length (map2 (\<lambda>conf l. EvNew ?c conf (Inr l)) confs ls)"
      using i lenc C(2) by simp
    ultimately have "EvNew ?c (confs ! i) (Inr (ls ! i))
        \<in> set (map2 (\<lambda>conf l. EvNew ?c conf (Inr l)) confs ls)"
      by (metis nth_mem)
    then have ev: "EvNew ?c (confs ! i) (Inr (ls ! i)) \<in> set (new_events w ?w')"
      by (simp add: ne)
    have "sint (ValueInt32 (LocalPort (out ! i))) = port"
      if "- (2 ^ 31) \<le> port \<and> port < 2 ^ 31"
      using that p(2) by (simp add: NewInt32Value_def ValueInt32_def int32_of_port)
    with cf ev p show ?thesis
      by (simp add: hp NewInt32Value_def)
  qed
  from res tr hp C(2,3) each show ?thesis
    by (intro exI [of _ out]) simp
qed

theorem Open_reports_bound_ports_witness:
  "\<not> HasError (resp_Diagnostics (fst (Open env_ok two_forwardings World0)))
   \<and> map LocalPort (LocalPortForwardings (the (resp_Result (fst (Open env_ok two_forwardings World0)))))
       = [Known 40001, Known 8080]
   \<and> map lis_addr (listeners (heap (snd (Open env_ok two_forwardings World0)) 0))
       = [TCPAddr 40001, TCPAddr 8080]
   \<and> (\<exists>out. resp_Result (fst (Open env_ok two_forwardings World0))
               = Some ((snd (Config_Get two_forwardings))\<lparr>LocalPortForwardings := out\<rparr>)
          \<and> length out = 2)"
proof -
  have h: "\<not> HasError (resp_Diagnostics (fst (Open env_ok two_forwardings World0)))"
    by (simp add: two_forwardings_run(2) HasError_Nil)
  have n: "length (LocalPortForwardings (snd (Config_Get two_forwardings))) = 2"
    by (simp add: two_forwardings_def open_request_def)
  from Open_reports_bound_ports [OF h] obtain out where
    "resp_Result (fst (Open env_ok two_forwardings World0))
       = Some ((snd (Config_Get two_forwardings))\<lparr>LocalPortForwardings := out\<rparr>)"
    "length out = length (LocalPortForwardings (snd (Config_Get two_forwardings)))"
    by blast
  then have "\<exists>out. resp_Result (fst (Open env_ok two_forwardings World0))
               = Some ((snd (Config_Get two_forwardings))\<lparr>LocalPortForwardings := out\<rparr>)
          \<and> length out = 2"
    using n by auto
  moreover have "map LocalPort (LocalPortForwardings (the (resp_Result (fst (Open env_ok two_forwardings World0)))))
       = [Known 40001, Known 8080]"
    by (simp add: two_forwardings_run(5) forwarding_def)
  moreover have "map lis_addr (listeners (heap (snd (Open env_ok two_forwardings World0)) 0))
       = [TCPAddr 40001, TCPAddr 8080]"
    by (simp add: two_forwardings_run(4))
  ultimately show ?thesis using h by blast
qed

text \<open>
  Claim C1. \<^verbatim>\<open>Open\<close> is to leave no entry behind when a step of the setup fails. It
  tears the tunnel down when a listener cannot be constructed (claim C4), but returns
  without teardown on the other three failures: at the inputs below (a private key that
  does not parse, a host that refuses the connection, a retry delay that does not
  parse) \<^verbatim>\<open>Open\<close> reports an error and the identifier is still registered; in the third
  case the record still holds the client and the first listener, and neither was
  closed.
\<close>

theorem Open_setup_failure_stays_registered:
  "HasError (resp_Diagnostics (fst (Open env_ok bad_key World0)))
   \<and> tracker (snd (Open env_ok bad_key World0)) (fst (randSeq env_ok 8 World0)) = Some 0
   \<and> HasError (resp_Diagnostics (fst (Open env_ok unreachable_host World0)))
   \<and> tracker (snd (Open env_ok unreachable_host World0)) (fst (randSeq env_ok 8 World0)) = Some 0
   \<and> HasError (resp_Diagnostics (fst (Open env_ok bad_delay World0)))
   \<and> tracker (snd (Open env_ok bad_delay World0)) (fst (randSeq env_ok 8 World0)) = Some 0
   \<and> heap (snd (Open env_ok bad_delay World0)) 0 =
       \<lparr>conn = Some 0, listeners = [\<lparr>lis_handle = 1, lis_addr = TCPAddr 40001\<rparr>]\<rparr>
   \<and> EvListenerClose 1 \<notin> set (trace (snd (Open env_ok bad_delay World0)))
   \<and> EvConnClose 0 \<notin> set (trace (snd (Open env_ok bad_delay World0)))"
  by (simp add: bad_key_run unreachable_host_run bad_delay_run randSeq_env_ok HasError_def)

subsection \<open>No listener without a client\<close>

lemma Open_keeps_heap_invariant:
  assumes "\<forall>b. listeners (heap w b) \<noteq> [] \<longrightarrow> conn (heap w b) \<noteq> None"
  shows "\<forall>b. listeners (heap (snd (Open env req w)) b) \<noteq> [] \<longrightarrow>
              conn (heap (snd (Open env req w)) b) \<noteq> None"
proof (cases rule: Open_cases [where env = env and req = req and w = w])
  case config_error
  with assms show ?thesis by simp
next
  case marshal_error
  with assms show ?thesis by (simp add: allocated_facts)
next
  case (key_error err)
  with assms show ?thesis by (simp add: registered_facts)
next
  case (dial_error signer err)
  with assms show ?thesis by (simp add: registered_facts)
next
  case (loop_returned out diags')
  from forward_loop_frame [OF connected_facts(1) loop_returned(1)] obtain ls where
    "heap (snd (Open env req w)) =
       (heap (connected env (snd (Config_Get req)) w))(next_addr w :=
          (heap (connected env (snd (Config_Get req)) w) (next_addr w))
            \<lparr>listeners := listeners (heap (connected env (snd (Config_Get req)) w) (next_addr w)) @ ls\<rparr>)"
    by blast
  with assms show ?thesis by (simp add: connected_facts)
next
  case (loop_completed out diags')
  from forward_loop_frame [OF connected_facts(1) loop_completed(2)] obtain ls where
    "heap (snd (Open env req w)) =
       (heap (connected env (snd (Config_Get req)) w))(next_addr w :=
          (heap (connected env (snd (Config_Get req)) w) (next_addr w))
            \<lparr>listeners := listeners (heap (connected env (snd (Config_Get req)) w) (next_addr w)) @ ls\<rparr>)"
    by blast
  with assms show ?thesis by (simp add: connected_facts)
qed

lemma reachable_heap_invariant:
  "reachable w \<Longrightarrow> \<forall>b. listeners (heap w b) \<noteq> [] \<longrightarrow> conn (heap w b) \<noteq> None"
proof (induction rule: reachable.induct)
  case reachable_init
  show ?case by (simp add: World0_def)
next
  case (reachable_Open w env req)
  then show ?case by (intro Open_keeps_heap_invariant)
next
  case (reachable_Close w env creq)
  then show ?case by (simp add: Close_heap)
qed

text \<open>
  Claim C6. In every state between calls, a registered record with a listener has a
  client: \<^verbatim>\<open>Open\<close> stores the client in the record before the loop that appends the
  listeners, and nothing resets it.
\<close>

theorem listeners_have_transport:
  assumes "reachable w" and "tracker w id' = Some a" and "listeners (heap w a) \<noteq> []"
  shows "conn (heap w a) \<noteq> None"
  using reachable_heap_invariant [OF assms(1)] assms(3) by blast

theorem listeners_have_transport_witness:
  "reachable (snd (Open env_ok two_forwardings World0))
   \<and> tracker (snd (Open env_ok two_forwardings World0)) ''dkryFMTa'' = Some 0
   \<and> listeners (heap (snd (Open env_ok two_forwardings World0)) 0) \<noteq> []
   \<and> conn (heap (snd (Open env_ok two_forwardings World0)) 0) \<noteq> None"
proof -
  have r: "reachable (snd (Open env_ok two_forwardings World0))"
    by (rule reachable_Open [OF reachable_init])
  have t: "tracker (snd (Open env_ok two_forwardings World0)) ''dkryFMTa'' = Some 0"
    by (rule two_forwardings_run(3))
  have l: "listeners (heap (snd (Open env_ok two_forwardings World0)) 0) \<noteq> []"
    by (simp add: two_forwardings_run(4))
  from r t l listeners_have_transport [OF r t l] show ?thesis by blast
qed

subsection \<open>The client of a registered record is open\<close>




















end
